theory Spec2Isabelle
  imports Complex_Main "HOL-Library.Char_ord" "HOL-Library.List_Lexorder"
begin

section \<open>Data model of the preset store (nodes/FlexPreset.py)\<close>

text \<open>
  A loaded YAML document is a tree of Python objects. Mappings are ordered
  (\<^verbatim>\<open>OrderedLoader\<close> builds an \<^verbatim>\<open>OrderedDict\<close> for every mapping node), so a
  mapping is an association list in on-disk order. Mapping keys are strings, as the
  preset files written by this module have them. A float scalar is the rational
  number it denotes, an infinity or not-a-number; rounding is not modelled.
\<close>

datatype pyflt = Fin rat | PosInf | NegInf | NaN

datatype yaml =
    YNull
  | YBool bool
  | YInt int
  | YFloat pyflt
  | YStr string
  | YSeq "yaml list"
  | YMap "(string \<times> yaml) list"

text \<open>Python truthiness, for \<^verbatim>\<open>yaml.load(f) or {}\<close> and \<^verbatim>\<open>if values:\<close>.\<close>

fun truthy :: "yaml \<Rightarrow> bool" where
  "truthy YNull = False"
| "truthy (YBool b) = b"
| "truthy (YInt i) = (i \<noteq> 0)"
| "truthy (YFloat f) = (f \<noteq> Fin 0)"
| "truthy (YStr s) = (s \<noteq> [])"
| "truthy (YSeq xs) = (xs \<noteq> [])"
| "truthy (YMap m) = (m \<noteq> [])"

definition or_empty :: "yaml \<Rightarrow> yaml" where
  "or_empty y = (if truthy y then y else YMap [])"

text \<open>Dictionary operations on an ordered mapping.\<close>

definition dict_keys :: "(string \<times> yaml) list \<Rightarrow> string list" where
  "dict_keys m = map fst m"

definition dict_has :: "(string \<times> yaml) list \<Rightarrow> string \<Rightarrow> bool" where
  "dict_has m k = (k \<in> set (dict_keys m))"

definition dict_get :: "(string \<times> yaml) list \<Rightarrow> string \<Rightarrow> yaml \<Rightarrow> yaml" where
  "dict_get m k d = (case map_of m k of None \<Rightarrow> d | Some v \<Rightarrow> v)"

text \<open>\<^verbatim>\<open>d[k] = v\<close> on an ordered dictionary: an existing key keeps its position, a new
  key goes to the end.\<close>

fun dict_set :: "(string \<times> yaml) list \<Rightarrow> string \<Rightarrow> yaml \<Rightarrow> (string \<times> yaml) list" where
  "dict_set [] k v = [(k, v)]"
| "dict_set ((k', v') # m) k v =
     (if k' = k then (k, v) # m else (k', v') # dict_set m k v)"

text \<open>The parts of the Python runtime and of PyYAML the module calls: the loader
  (\<^verbatim>\<open>None\<close> when \<^verbatim>\<open>yaml.load\<close> raises), the text \<^verbatim>\<open>yaml.dump\<close> emits for a
  node tree, \<^verbatim>\<open>str()\<close> of an object that is not a string, \<^verbatim>\<open>OrderedDict(x)\<close> of
  an object that is not a mapping (\<^verbatim>\<open>None\<close> when it raises), the interpreter's limit
  on the digits of an integer string (\<^verbatim>\<open>sys.get_int_max_str_digits()\<close>, 4300 unless
  configured, 0 for no limit), and the clock reading formatted by
  \<^verbatim>\<open>strftime("%Y%m%d_%H%M%S")\<close>.\<close>

record pyenv =
  yaml_load :: "string \<Rightarrow> yaml option"
  yaml_emit :: "yaml \<Rightarrow> string"
  py_repr :: "yaml \<Rightarrow> string"
  ordered_dict_of :: "yaml \<Rightarrow> (string \<times> yaml) list option"
  int_max_str_digits :: nat
  now_stamp :: string

text \<open>The presets directory: file name to file contents. The empty name denotes
  the directory itself, which exists and cannot be opened as a file.\<close>

type_synonym filesys = "string \<rightharpoonup> string"

definition path_exists :: "filesys \<Rightarrow> string \<Rightarrow> bool" where
  "path_exists fs name = (name = [] \<or> fs name \<noteq> None)"

text \<open>\<^verbatim>\<open>open\<close> and \<^verbatim>\<open>yaml.load(f, Loader=OrderedLoader) or {}\<close>; \<^verbatim>\<open>None\<close> is any
  exception of the two.\<close>

definition load_data :: "pyenv \<Rightarrow> filesys \<Rightarrow> string \<Rightarrow> yaml option" where
  "load_data env fs name =
     (if name = [] then None
      else case fs name of
             None \<Rightarrow> None
           | Some bytes \<Rightarrow> map_option or_empty (yaml_load env bytes))"

definition py_str :: "pyenv \<Rightarrow> yaml \<Rightarrow> string" where
  "py_str env y = (case y of YStr s \<Rightarrow> s | _ \<Rightarrow> py_repr env y)"

section \<open>The node instance and the class attributes\<close>

record node_state =
  panel_order :: "string list"
  workflow_loading :: bool
  dynamic_output_types_attr :: "string list"
  dynamic_output_names_attr :: "string list"
  RETURN_TYPES :: "string list"
  RETURN_NAMES :: "string list"

section \<open>Dynamic schema resolver: \<^verbatim>\<open>NS_FlexPreset.dynamic_output_types\<close>\<close>

text \<open>Lines 229-241: the processing order.\<close>

fun append_missing :: "string list \<Rightarrow> string list \<Rightarrow> string list" where
  "append_missing acc [] = acc"
| "append_missing acc (key # keys) =
     (if key \<notin> set acc then append_missing (acc @ [key]) keys
      else append_missing acc keys)"

fun panel_keys_in :: "(string \<times> yaml) list \<Rightarrow> string list \<Rightarrow> string list \<Rightarrow> string list" where
  "panel_keys_in values acc [] = acc"
| "panel_keys_in values acc (panel_key # rest) =
     (if dict_has values panel_key then panel_keys_in values (acc @ [panel_key]) rest
      else panel_keys_in values acc rest)"

definition schema_keys_to_process :: "string list \<Rightarrow> (string \<times> yaml) list \<Rightarrow> string list" where
  "schema_keys_to_process po values =
     (if po \<noteq> [] then append_missing (panel_keys_in values [] po) (dict_keys values)
      else dict_keys values)"

text \<open>Lines 244-261: one schema entry per processed key whose field is a mapping.\<close>

definition output_type_of :: "yaml \<Rightarrow> string" where
  "output_type_of value_type =
     (if value_type = YStr ''int'' then ''INT''
      else if value_type = YStr ''float'' then ''FLOAT''
      else ''STRING'')"

fun schema_entries :: "pyenv \<Rightarrow> (string \<times> yaml) list \<Rightarrow> string list \<Rightarrow> (string \<times> string) list" where
  "schema_entries env values [] = []"
| "schema_entries env values (key # keys) =
     (if dict_has values key then
        (case dict_get values key YNull of
           YMap value_data \<Rightarrow>
             (let value_type = dict_get value_data ''type'' (YStr ''string'');
                  output_name = key @ ''_'' @ py_str env value_type
              in (output_type_of value_type, output_name) # schema_entries env values keys)
         | _ \<Rightarrow> schema_entries env values keys)
      else schema_entries env values keys)"

text \<open>Lines 221-263, the body of the \<^verbatim>\<open>try\<close>. Where the document, the preset or the
  panel is not a mapping, the source either skips the block or raises inside it
  (\<^verbatim>\<open>data[title]\<close> on a list, \<^verbatim>\<open>values.keys()\<close> on a list or on \<^verbatim>\<open>None\<close>); the
  \<^verbatim>\<open>except\<close> prints and goes on, and nothing was appended before the raise, so both
  ways leave \<^verbatim>\<open>outputs\<close> empty.\<close>

definition read_schema :: "pyenv \<Rightarrow> filesys \<Rightarrow> string list \<Rightarrow> string \<Rightarrow> string \<Rightarrow> (string \<times> string) list" where
  "read_schema env fs po select_yaml title =
     (case load_data env fs select_yaml of
        Some (YMap data) \<Rightarrow>
          (if dict_has data title then
             (case dict_get data title YNull of
                YMap preset \<Rightarrow>
                  (case dict_get preset ''values'' (YMap []) of
                     YMap values \<Rightarrow> schema_entries env values (schema_keys_to_process po values)
                   | _ \<Rightarrow> [])
              | _ \<Rightarrow> [])
           else [])
      | _ \<Rightarrow> [])"

definition set_default :: "node_state \<Rightarrow> node_state" where
  "set_default inst = inst\<lparr>dynamic_output_types_attr := [''STRING''],
                           dynamic_output_names_attr := [''output''],
                           panel_order := [],
                           RETURN_TYPES := [''STRING''],
                           RETURN_NAMES := [''output'']\<rparr>"

text \<open>The class method. \<^verbatim>\<open>cls._get_instance()\<close> always yields the singleton, so
  \<^verbatim>\<open>instance\<close> is never \<^verbatim>\<open>None\<close>. The result is the pair of lists and the updated
  singleton (with the class attributes).\<close>

definition dynamic_output_types ::
  "pyenv \<Rightarrow> filesys \<Rightarrow> node_state \<Rightarrow> string \<Rightarrow> string \<Rightarrow> string
     \<Rightarrow> (string list \<times> string list) \<times> node_state" where
  "dynamic_output_types env fs inst select_yaml select_preset input_preset_name =
     (let title_to_use = (if input_preset_name \<noteq> [] then input_preset_name else select_preset)
      in if title_to_use = [] \<or> select_yaml = [] then
           (if workflow_loading inst then (([], []), inst)
            else (([''STRING''], [''output'']), set_default inst))
         else if \<not> path_exists fs select_yaml then
           (([''STRING''], [''output'']), set_default inst)
         else
           (let entries = read_schema env fs (panel_order inst) select_yaml title_to_use;
                outputs = (if entries = [] then [''STRING''] else map fst entries);
                output_names = (if entries = [] then [''output''] else map snd entries)
            in ((outputs, output_names),
                inst\<lparr>dynamic_output_types_attr := outputs,
                     dynamic_output_names_attr := output_names,
                     RETURN_TYPES := outputs,
                     RETURN_NAMES := output_names\<rparr>)))"

section \<open>Python's \<^verbatim>\<open>int()\<close>, \<^verbatim>\<open>float()\<close> and \<^verbatim>\<open>str()\<close>\<close>

text \<open>Strings are ASCII here: a \<^typ>\<open>char\<close> is a byte, and the Unicode digits and
  spaces that \<^verbatim>\<open>int\<close> and \<^verbatim>\<open>float\<close> also accept are not modelled. Integers are
  unbounded; \<^verbatim>\<open>int\<close> of a string with more digits than the interpreter's limit is a
  ValueError.\<close>

datatype conv_err = ConvValueError | ConvTypeError | ConvOverflowError

text \<open>A float result is kept by where it came from: the (stripped) string or the
  integer it was converted from, or the float it already was.\<close>

datatype pyfloat = FloatOfStr string | FloatOfInt int | FloatVal pyflt

datatype pyval = PInt int | PFloat pyfloat | PStr string

definition is_digit :: "char \<Rightarrow> bool" where
  "is_digit c = (c \<in> set ''0123456789'')"

definition is_space :: "char \<Rightarrow> bool" where
  "is_space c = (c \<in> set [CHR 0x09, CHR 0x0A, CHR 0x0B, CHR 0x0C, CHR 0x0D, CHR 0x20])"

definition strip :: "string \<Rightarrow> string" where
  "strip s = rev (dropWhile is_space (rev (dropWhile is_space s)))"

definition drop_sign :: "string \<Rightarrow> string" where
  "drop_sign u = (case u of [] \<Rightarrow> [] | c # r \<Rightarrow> if c = CHR ''+'' \<or> c = CHR ''-'' then r else u)"

text \<open>\<^verbatim>\<open>digit (["_"] digit)*\<close>: what is left after the longest such prefix.\<close>

fun skip_digits :: "string \<Rightarrow> string" where
  "skip_digits [] = []"
| "skip_digits [c] = (if is_digit c then [] else [c])"
| "skip_digits (c # d # cs) =
     (if is_digit c then skip_digits (d # cs)
      else if c = CHR ''_'' \<and> is_digit d then skip_digits (d # cs)
      else c # d # cs)"

definition digit_part :: "string \<Rightarrow> string option" where
  "digit_part s = (case s of [] \<Rightarrow> None | c # cs \<Rightarrow> if is_digit c then Some (skip_digits cs) else None)"

definition digit_val :: "char \<Rightarrow> nat" where
  "digit_val c = of_char c - 48"

definition dec_val :: "string \<Rightarrow> nat" where
  "dec_val s = foldl (\<lambda>acc c. 10 * acc + digit_val c) 0 (filter is_digit s)"

text \<open>\<^verbatim>\<open>int(s)\<close> for a string: \<^verbatim>\<open>None\<close> is the ValueError, of a string that is
  not an integer literal or that has more digits than the limit allows.\<close>

definition int_of_str :: "pyenv \<Rightarrow> string \<Rightarrow> int option" where
  "int_of_str env s =
     (let t = strip s; u = drop_sign t
      in if digit_part u = Some []
            \<and> (int_max_str_digits env = 0
                \<or> length (filter is_digit u) \<le> int_max_str_digits env)
         then Some (if t \<noteq> [] \<and> hd t = CHR ''-'' then - int (dec_val u) else int (dec_val u))
         else None)"

definition to_lower :: "char \<Rightarrow> char" where
  "to_lower c = (case map_of (zip ''ABCDEFGHIJKLMNOPQRSTUVWXYZ'' ''abcdefghijklmnopqrstuvwxyz'') c of
                   None \<Rightarrow> c | Some l \<Rightarrow> l)"

definition frac_opt :: "string \<Rightarrow> string" where
  "frac_opt r = (case digit_part r of Some r' \<Rightarrow> r' | None \<Rightarrow> r)"

text \<open>\<^verbatim>\<open>number ::= [digit_part] "." digit_part | digit_part ["."]\<close>, with the
  fraction after a leading digit part optional as the parser has it.\<close>

definition after_number :: "string \<Rightarrow> string option" where
  "after_number u =
     (case digit_part u of
        Some r \<Rightarrow> (case r of [] \<Rightarrow> Some []
                    | c # r' \<Rightarrow> if c = CHR ''.'' then Some (frac_opt r') else Some r)
      | None \<Rightarrow> (case u of [] \<Rightarrow> None
                  | c # r' \<Rightarrow> if c = CHR ''.'' then digit_part r' else None))"

definition after_exponent :: "string \<Rightarrow> string option" where
  "after_exponent r =
     (case r of [] \<Rightarrow> Some []
      | c # r' \<Rightarrow> if c = CHR ''e'' \<or> c = CHR ''E'' then digit_part (drop_sign r') else Some r)"

text \<open>Whether \<^verbatim>\<open>float(s)\<close> returns for a string (otherwise ValueError).\<close>

definition float_str_ok :: "string \<Rightarrow> bool" where
  "float_str_ok s =
     (let u = drop_sign (strip s)
      in map to_lower u \<in> set [''inf'', ''infinity'', ''nan'']
         \<or> (case after_number u of None \<Rightarrow> False | Some r \<Rightarrow> after_exponent r = Some []))"

text \<open>\<^verbatim>\<open>int(value)\<close> on a loaded object: a float is truncated towards zero,
  \<^verbatim>\<open>nan\<close> is a ValueError and an infinity an OverflowError.\<close>

definition py_int :: "pyenv \<Rightarrow> yaml \<Rightarrow> conv_err + int" where
  "py_int env v =
     (case v of
        YStr s \<Rightarrow> (case int_of_str env s of None \<Rightarrow> Inl ConvValueError | Some i \<Rightarrow> Inr i)
      | YInt i \<Rightarrow> Inr i
      | YBool b \<Rightarrow> Inr (if b then 1 else 0)
      | YFloat f \<Rightarrow>
          (case f of
             Fin r \<Rightarrow> Inr (if r < 0 then \<lceil>r\<rceil> else \<lfloor>r\<rfloor>)
           | NaN \<Rightarrow> Inl ConvValueError
           | _ \<Rightarrow> Inl ConvOverflowError)
      | _ \<Rightarrow> Inl ConvTypeError)"

text \<open>\<^verbatim>\<open>float(value)\<close>: an integer that rounds to \<open>2 ^ 1024\<close> or beyond is an
  OverflowError.\<close>

definition py_float :: "yaml \<Rightarrow> conv_err + pyfloat" where
  "py_float v =
     (case v of
        YStr s \<Rightarrow> if float_str_ok s then Inr (FloatOfStr (strip s)) else Inl ConvValueError
      | YInt i \<Rightarrow> if \<bar>i\<bar> \<ge> 2 ^ 1024 - 2 ^ 970 then Inl ConvOverflowError else Inr (FloatOfInt i)
      | YBool b \<Rightarrow> Inr (FloatOfInt (if b then 1 else 0))
      | YFloat f \<Rightarrow> Inr (FloatVal f)
      | _ \<Rightarrow> Inl ConvTypeError)"

section \<open>Reading and writing a document\<close>

text \<open>\<^verbatim>\<open>_save_yaml\<close>: dump to a temporary file, then \<^verbatim>\<open>os.replace\<close>. The dumper is
  called with \<^verbatim>\<open>sort_keys=False\<close>, so the node tree is emitted as it is. \<open>io_ok\<close>
  is whether the file system lets the write through; \<^verbatim>\<open>None\<close> is the exception.\<close>

definition save_yaml :: "pyenv \<Rightarrow> bool \<Rightarrow> filesys \<Rightarrow> string \<Rightarrow> yaml \<Rightarrow> filesys option" where
  "save_yaml env io_ok fs yaml_file data =
     (if io_ok \<and> yaml_file \<noteq> [] then Some (fs(yaml_file \<mapsto> yaml_emit env data)) else None)"

fun is_infix :: "string \<Rightarrow> string \<Rightarrow> bool" where
  "is_infix t [] = (t = [])"
| "is_infix t (c # cs) = (take (length t) (c # cs) = t \<or> is_infix t cs)"

text \<open>\<^verbatim>\<open>title in data\<close>: key membership in a mapping, element membership in a
  sequence, substring test in a string, TypeError (\<^verbatim>\<open>None\<close>) otherwise.\<close>

definition py_contains :: "yaml \<Rightarrow> string \<Rightarrow> bool option" where
  "py_contains data title =
     (case data of
        YMap m \<Rightarrow> Some (dict_has m title)
      | YSeq xs \<Rightarrow> Some (YStr title \<in> set xs)
      | YStr s \<Rightarrow> Some (is_infix title s)
      | _ \<Rightarrow> None)"

text \<open>\<^verbatim>\<open>_ensure_title_exists\<close>: the flag returned and the directory afterwards.\<close>

definition ensure_title_exists :: "pyenv \<Rightarrow> bool \<Rightarrow> filesys \<Rightarrow> string \<Rightarrow> string \<Rightarrow> bool \<times> filesys" where
  "ensure_title_exists env io_ok fs yaml_file title =
     (case (if path_exists fs yaml_file then load_data env fs yaml_file else Some (YMap [])) of
        None \<Rightarrow> (False, fs)
      | Some data \<Rightarrow>
          (case py_contains data title of
             None \<Rightarrow> (False, fs)
           | Some True \<Rightarrow> (True, fs)
           | Some False \<Rightarrow>
               (case data of
                  YMap m \<Rightarrow>
                    (case save_yaml env io_ok fs yaml_file
                            (YMap (dict_set m title (YMap [(''values'', YMap [])]))) of
                       None \<Rightarrow> (False, fs)
                     | Some fs' \<Rightarrow> (True, fs'))
                | _ \<Rightarrow> (False, fs))))"

text \<open>\<^verbatim>\<open>_get_values_from_yaml\<close>: whatever is stored under \<^verbatim>\<open>values\<close>, and the empty
  mapping on every exception.\<close>

definition get_values_from_yaml :: "pyenv \<Rightarrow> filesys \<Rightarrow> string \<Rightarrow> string \<Rightarrow> yaml" where
  "get_values_from_yaml env fs yaml_file title =
     (if \<not> path_exists fs yaml_file then YMap []
      else case load_data env fs yaml_file of
             Some (YMap data) \<Rightarrow>
               (if dict_has data title then
                  (case dict_get data title YNull of
                     YMap preset \<Rightarrow> dict_get preset ''values'' (YMap [])
                   | _ \<Rightarrow> YMap [])
                else YMap [])
           | _ \<Rightarrow> YMap [])"

section \<open>Evaluation entry point: \<^verbatim>\<open>NS_FlexPreset.run\<close>\<close>

datatype pyerr =
    ValueError string
  | TypeError
  | OverflowError
  | AttributeError
  | OSError

text \<open>Lines 793-805: the processing order, written out a second time in \<^verbatim>\<open>run\<close>.\<close>

fun run_panel_loop :: "(string \<times> yaml) list \<Rightarrow> string list \<Rightarrow> string list \<Rightarrow> string list" where
  "run_panel_loop values [] keys_to_process = keys_to_process"
| "run_panel_loop values (panel_key # po) keys_to_process =
     run_panel_loop values po
       (if panel_key \<in> fst ` set values then keys_to_process @ [panel_key] else keys_to_process)"

fun run_yaml_loop :: "string list \<Rightarrow> string list \<Rightarrow> string list" where
  "run_yaml_loop [] keys_to_process = keys_to_process"
| "run_yaml_loop (key # keys) keys_to_process =
     run_yaml_loop keys
       (if key \<notin> set keys_to_process then keys_to_process @ [key] else keys_to_process)"

definition run_keys_to_process :: "string list \<Rightarrow> (string \<times> yaml) list \<Rightarrow> string list" where
  "run_keys_to_process po values =
     (if po \<noteq> [] then run_yaml_loop (map fst values) (run_panel_loop values po [])
      else map fst values)"

text \<open>Lines 816-827: the conversion of one field. A ValueError or TypeError of the
  conversion is re-raised as a ValueError with the message built here; an
  OverflowError is not caught.\<close>

definition error_msg :: "pyenv \<Rightarrow> yaml \<Rightarrow> yaml \<Rightarrow> string \<Rightarrow> string" where
  "error_msg env v value_type key =
     ''NS-FlexPreset: Cannot convert '' @ [CHR 0x27] @ py_str env v @ [CHR 0x27] @ '' to ''
       @ py_str env value_type @ '' for key '' @ [CHR 0x27] @ key @ [CHR 0x27]"

definition reraise :: "pyenv \<Rightarrow> yaml \<Rightarrow> yaml \<Rightarrow> string \<Rightarrow> conv_err \<Rightarrow> pyerr" where
  "reraise env v value_type key e =
     (case e of ConvOverflowError \<Rightarrow> OverflowError
      | _ \<Rightarrow> ValueError (error_msg env v value_type key))"

definition convert_field :: "pyenv \<Rightarrow> string \<Rightarrow> (string \<times> yaml) list \<Rightarrow> pyerr + pyval" where
  "convert_field env key value_data =
     (let v = dict_get value_data ''value'' (YStr []);
          value_type = dict_get value_data ''type'' (YStr ''string'')
      in if value_type = YStr ''int'' then
           (case py_int env v of Inl e \<Rightarrow> Inl (reraise env v value_type key e) | Inr i \<Rightarrow> Inr (PInt i))
         else if value_type = YStr ''float'' then
           (case py_float v of Inl e \<Rightarrow> Inl (reraise env v value_type key e) | Inr f \<Rightarrow> Inr (PFloat f))
         else Inr (PStr (py_str env v)))"

text \<open>Lines 808-827: the loop over the processing order; it stops at the first raise.\<close>

fun convert_values :: "pyenv \<Rightarrow> (string \<times> yaml) list \<Rightarrow> string list \<Rightarrow> pyval list \<Rightarrow> pyerr + pyval list" where
  "convert_values env values [] output_values = Inr output_values"
| "convert_values env values (key # keys) output_values =
     (if dict_has values key then
        (case dict_get values key YNull of
           YMap value_data \<Rightarrow>
             (case convert_field env key value_data of
                Inl e \<Rightarrow> Inl e
              | Inr x \<Rightarrow> convert_values env values keys (output_values @ [x]))
         | _ \<Rightarrow> convert_values env values keys output_values)
      else convert_values env values keys output_values)"

text \<open>Lines 791-827. A panel that is true but not a mapping makes \<^verbatim>\<open>run\<close> raise
  outside any handler: \<^verbatim>\<open>values.keys()\<close> is an AttributeError, and before it
  \<^verbatim>\<open>panel_key in values\<close> is a TypeError on a number.\<close>

definition build_output_values :: "pyenv \<Rightarrow> string list \<Rightarrow> yaml \<Rightarrow> pyerr + pyval list" where
  "build_output_values env po values =
     (if truthy values then
        (case values of
           YMap m \<Rightarrow> convert_values env m (run_keys_to_process po m) []
         | YSeq xs \<Rightarrow> Inl AttributeError
         | YStr s \<Rightarrow> Inl AttributeError
         | _ \<Rightarrow> if po \<noteq> [] then Inl TypeError else Inl AttributeError)
      else Inr [])"

text \<open>Lines 829-850: at least one value, then the count of the declared types.\<close>

definition pad_value :: "string \<Rightarrow> pyval" where
  "pad_value output_type =
     (if output_type = ''INT'' then PInt 0
      else if output_type = ''FLOAT'' then PFloat (FloatVal (Fin 0))
      else PStr [])"

definition reconcile :: "string list \<Rightarrow> pyval list \<Rightarrow> pyval list" where
  "reconcile outputs output_values0 =
     (let output_values = (if output_values0 = [] then [PStr []] else output_values0);
          expected_count = length outputs;
          actual_count = length output_values
      in if actual_count < expected_count then
           output_values @ map (\<lambda>i. pad_value (outputs ! i)) [actual_count ..< expected_count]
         else if actual_count > expected_count then take expected_count output_values
         else output_values)"

text \<open>\<^verbatim>\<open>run\<close>. \<open>deferred\<close> is the branch where an event loop is already running and
  \<^verbatim>\<open>_ensure_title_exists\<close> is only scheduled as a task; otherwise it runs to its end
  first. \<open>self_order\<close> is \<^verbatim>\<open>None\<close> when \<^verbatim>\<open>self\<close> is the singleton that
  \<^verbatim>\<open>dynamic_output_types\<close> uses, and \<^verbatim>\<open>self._panel_order\<close> when \<^verbatim>\<open>self\<close> is another
  object. The result is the tuple or the exception, with the directory and the
  singleton afterwards.\<close>

definition run ::
  "pyenv \<Rightarrow> bool \<Rightarrow> bool \<Rightarrow> filesys \<Rightarrow> node_state \<Rightarrow> string list option
     \<Rightarrow> string \<Rightarrow> string \<Rightarrow> string \<Rightarrow> (pyerr + pyval list) \<times> filesys \<times> node_state" where
  "run env io_ok deferred fs inst self_order select_yaml select_preset input_preset_name =
     (let title_to_use = (if input_preset_name \<noteq> [] then input_preset_name else select_preset);
          fs1 = (if title_to_use \<noteq> [] \<and> select_yaml \<noteq> [] \<and> \<not> deferred
                 then snd (ensure_title_exists env io_ok fs select_yaml title_to_use) else fs);
          values = get_values_from_yaml env fs1 select_yaml title_to_use;
          dyn = dynamic_output_types env fs1 inst select_yaml select_preset input_preset_name;
          outputs = fst (fst dyn);
          inst1 = snd dyn;
          po = (case self_order of None \<Rightarrow> panel_order inst1 | Some p \<Rightarrow> p)
      in (case build_output_values env po values of
            Inl e \<Rightarrow> Inl e
          | Inr output_values \<Rightarrow> Inr (reconcile outputs output_values),
          fs1, inst1))"

section \<open>Type validation: \<^verbatim>\<open>TYPE_REGEX\<close> and \<^verbatim>\<open>_validate_value_type\<close>\<close>

text \<open>The regular expressions of \<^verbatim>\<open>TYPE_REGEX\<close> as syntax trees. \<open>Never\<close>, \<open>Empty\<close>
  and \<open>Alt\<close> only arise as derivatives.\<close>

datatype rx =
    Never
  | Empty
  | Chr char
  | Range char char
  | AnyChar
  | Seq rx rx
  | Alt rx rx
  | Star rx
  | Opt rx
  | Plus rx

fun nullable :: "rx \<Rightarrow> bool" where
  "nullable Never = False"
| "nullable Empty = True"
| "nullable (Chr c) = False"
| "nullable (Range a b) = False"
| "nullable AnyChar = False"
| "nullable (Seq r s) = (nullable r \<and> nullable s)"
| "nullable (Alt r s) = (nullable r \<or> nullable s)"
| "nullable (Star r) = True"
| "nullable (Opt r) = True"
| "nullable (Plus r) = nullable r"

definition in_range :: "char \<Rightarrow> char \<Rightarrow> char \<Rightarrow> bool" where
  "in_range a b c = ((of_char a :: nat) \<le> of_char c \<and> (of_char c :: nat) \<le> of_char b)"

text \<open>The derivative: what may follow the character \<open>c\<close>. The dot matches every
  character but the newline.\<close>

fun deriv :: "char \<Rightarrow> rx \<Rightarrow> rx" where
  "deriv c Never = Never"
| "deriv c Empty = Never"
| "deriv c (Chr d) = (if c = d then Empty else Never)"
| "deriv c (Range a b) = (if in_range a b c then Empty else Never)"
| "deriv c AnyChar = (if c \<noteq> CHR 0x0A then Empty else Never)"
| "deriv c (Seq r s) =
     (if nullable r then Alt (Seq (deriv c r) s) (deriv c s) else Seq (deriv c r) s)"
| "deriv c (Alt r s) = Alt (deriv c r) (deriv c s)"
| "deriv c (Star r) = Seq (deriv c r) (Star r)"
| "deriv c (Opt r) = deriv c r"
| "deriv c (Plus r) = Seq (deriv c r) (Star r)"

fun rx_match :: "rx \<Rightarrow> string \<Rightarrow> bool" where
  "rx_match r [] = nullable r"
| "rx_match r (c # cs) = rx_match (deriv c r) cs"

text \<open>\<^verbatim>\<open>re.match\<close> anchors at the start. With a final \<^verbatim>\<open>$\<close> the body has to reach the
  end of the string or the newline that ends it; without, any prefix will do.\<close>

definition re_match :: "rx \<times> bool \<Rightarrow> string \<Rightarrow> bool" where
  "re_match p s =
     (case p of (r, dollar) \<Rightarrow>
        if dollar then rx_match r s \<or> (s \<noteq> [] \<and> last s = CHR 0x0A \<and> rx_match r (butlast s))
        else list_ex (\<lambda>n. rx_match r (take n s)) [0 ..< Suc (length s)])"

definition digit_rx :: rx where
  "digit_rx = Range CHR ''0'' CHR ''9''"

definition TYPE_REGEX :: "(string \<times> rx \<times> bool) list" where
  "TYPE_REGEX =
     [(''int'', (Seq (Opt (Chr CHR ''-'')) (Plus digit_rx), True)),
      (''float'', (Seq (Opt (Chr CHR ''-''))
                    (Seq (Star digit_rx) (Seq (Opt (Chr CHR ''.'')) (Plus digit_rx))), True)),
      (''string'', (Star AnyChar, False))]"

definition validate_value_type :: "pyenv \<Rightarrow> string \<Rightarrow> yaml \<Rightarrow> bool" where
  "validate_value_type env value_type v =
     (case map_of TYPE_REGEX value_type of
        None \<Rightarrow> False
      | Some regex \<Rightarrow> re_match regex (py_str env v))"

text \<open>The language of a regular expression, to reason about the matcher.\<close>

definition conc :: "string set \<Rightarrow> string set \<Rightarrow> string set" where
  "conc A B = {u @ v | u v. u \<in> A \<and> v \<in> B}"

inductive_set star :: "string set \<Rightarrow> string set" for A :: "string set" where
  star_nil: "[] \<in> star A"
| star_app: "u \<in> A \<Longrightarrow> v \<in> star A \<Longrightarrow> u @ v \<in> star A"

fun lang :: "rx \<Rightarrow> string set" where
  "lang Never = {}"
| "lang Empty = {[]}"
| "lang (Chr c) = {[c]}"
| "lang (Range a b) = {[c] | c. in_range a b c}"
| "lang AnyChar = {[c] | c. c \<noteq> CHR 0x0A}"
| "lang (Seq r s) = conc (lang r) (lang s)"
| "lang (Alt r s) = lang r \<union> lang s"
| "lang (Star r) = star (lang r)"
| "lang (Opt r) = insert [] (lang r)"
| "lang (Plus r) = conc (lang r) (star (lang r))"

section \<open>Corrupt files: \<^verbatim>\<open>_get_titles_from_yaml\<close> and \<^verbatim>\<open>_handle_corrupt_yaml\<close>\<close>

definition placeholder_text :: string where
  "placeholder_text = ''# Recovered from corrupt file'' @ [CHR 0x0A]"




section \<open>Mutation API\<close>

text \<open>\<^verbatim>\<open>OrderedDict(x)\<close> in \<^verbatim>\<open>_add_value\<close>: every loaded mapping is an
  \<^verbatim>\<open>OrderedDict\<close> already; for any other object the constructor is the runtime's
  (\<^verbatim>\<open>None\<close> when it raises).\<close>

definition to_ordered_dict :: "pyenv \<Rightarrow> yaml \<Rightarrow> (string \<times> yaml) list option" where
  "to_ordered_dict env y = (case y of YMap m \<Rightarrow> Some m | _ \<Rightarrow> ordered_dict_of env y)"

text \<open>Lines 672-689 of \<^verbatim>\<open>_add_value\<close>: the document after the update, \<^verbatim>\<open>None\<close> on an
  exception (\<^verbatim>\<open>title not in data\<close> or \<^verbatim>\<open>data[title] = ...\<close> on a document that is not
  a mapping, a constructor that raises).\<close>

definition add_value_data :: "pyenv \<Rightarrow> yaml \<Rightarrow> string \<Rightarrow> string \<Rightarrow> yaml \<Rightarrow> yaml \<Rightarrow> yaml option" where
  "add_value_data env data0 title key_name key_type key_value =
     (case data0 of
        YMap data \<Rightarrow>
          (case (if \<not> dict_has data title then Some [(''values'', YMap [])]
                 else to_ordered_dict env (dict_get data title YNull)) of
             None \<Rightarrow> None
           | Some preset \<Rightarrow>
               (case (if \<not> dict_has preset ''values'' then Some []
                      else to_ordered_dict env (dict_get preset ''values'' YNull)) of
                  None \<Rightarrow> None
                | Some values \<Rightarrow>
                    Some (YMap (dict_set data title
                            (YMap (dict_set preset ''values''
                               (YMap (dict_set values key_name
                                  (YMap [(''type'', key_type), (''value'', key_value)])))))))))
      | _ \<Rightarrow> None)"

text \<open>\<^verbatim>\<open>_add_value\<close>: the flag returned and the directory afterwards.\<close>

definition add_value ::
  "pyenv \<Rightarrow> bool \<Rightarrow> filesys \<Rightarrow> string \<Rightarrow> string \<Rightarrow> string \<Rightarrow> yaml \<Rightarrow> yaml \<Rightarrow> bool \<times> filesys" where
  "add_value env io_ok fs yaml_file title key_name key_type key_value =
     (case (if path_exists fs yaml_file then load_data env fs yaml_file else Some (YMap [])) of
        None \<Rightarrow> (False, fs)
      | Some data0 \<Rightarrow>
          (case add_value_data env data0 title key_name key_type key_value of
             None \<Rightarrow> (False, fs)
           | Some data' \<Rightarrow>
               (case save_yaml env io_ok fs yaml_file data' of
                  None \<Rightarrow> (False, fs)
                | Some fs' \<Rightarrow> (True, fs'))))"

text \<open>Lines 736-747 of \<^verbatim>\<open>_update_key_name\<close>: the copy of the panel into a new ordered
  dictionary.\<close>

fun rename_items :: "string \<Rightarrow> string \<Rightarrow> (string \<times> yaml) list \<Rightarrow> (string \<times> yaml) list \<Rightarrow> (string \<times> yaml) list" where
  "rename_items old_key new_key [] new_values = new_values"
| "rename_items old_key new_key ((key, v) # items) new_values =
     rename_items old_key new_key items
       (if key = old_key then dict_set new_values new_key v else dict_set new_values key v)"

text \<open>\<^verbatim>\<open>_update_key_name\<close>. A preset or a panel that is not a mapping ends in an
  exception (\<^verbatim>\<open>data[title]["values"]\<close>, \<^verbatim>\<open>.items()\<close>) or in a failed membership
  test; both return \<^verbatim>\<open>False\<close> and write nothing.\<close>

definition update_key_name ::
  "pyenv \<Rightarrow> bool \<Rightarrow> filesys \<Rightarrow> string \<Rightarrow> string \<Rightarrow> string \<Rightarrow> string \<Rightarrow> bool \<times> filesys" where
  "update_key_name env io_ok fs yaml_file title old_key new_key =
     (if \<not> path_exists fs yaml_file \<or> new_key = [] then (False, fs)
      else case load_data env fs yaml_file of
             Some (YMap data) \<Rightarrow>
               (if dict_has data title then
                  (case dict_get data title YNull of
                     YMap preset \<Rightarrow>
                       (if dict_has preset ''values'' then
                          (case dict_get preset ''values'' YNull of
                             YMap values \<Rightarrow>
                               (if dict_has values old_key \<and> old_key \<noteq> new_key then
                                  (case save_yaml env io_ok fs yaml_file
                                          (YMap (dict_set data title
                                             (YMap (dict_set preset ''values''
                                                (YMap (rename_items old_key new_key values [])))))) of
                                     None \<Rightarrow> (False, fs)
                                   | Some fs' \<Rightarrow> (True, fs'))
                                else (False, fs))
                           | _ \<Rightarrow> (False, fs))
                        else (False, fs))
                   | _ \<Rightarrow> (False, fs))
                else (False, fs))
           | _ \<Rightarrow> (False, fs))"

text \<open>The tracker update at the head of the \<^verbatim>\<open>update_key\<close> handler (lines 547-553).
  \<open>request_order\<close> is the \<^verbatim>\<open>panel_order\<close> of the request, \<^verbatim>\<open>None\<close> when absent.\<close>

fun index_of :: "string \<Rightarrow> string list \<Rightarrow> nat" where
  "index_of x [] = 0"
| "index_of x (y # ys) = (if y = x then 0 else Suc (index_of x ys))"

definition update_key_order :: "string list \<Rightarrow> string list option \<Rightarrow> string \<Rightarrow> string \<Rightarrow> string list" where
  "update_key_order po request_order old_key new_key =
     (case request_order of
        Some (k # ks) \<Rightarrow> if old_key \<in> set po then k # ks
                        else po
      | _ \<Rightarrow> if old_key \<in> set po then po[index_of old_key po := new_key] else po)"

text \<open>The \<^verbatim>\<open>update_key\<close> handler up to the schema refresh (lines 545-558): the flag of
  the response, the directory and the singleton. The refresh of the enumerations and
  the broadcast that follow are not part of the model.\<close>

definition update_key ::
  "pyenv \<Rightarrow> bool \<Rightarrow> filesys \<Rightarrow> node_state \<Rightarrow> string \<Rightarrow> string \<Rightarrow> string \<Rightarrow> string
     \<Rightarrow> string list option \<Rightarrow> bool \<times> filesys \<times> node_state" where
  "update_key env io_ok fs inst yaml_file title old_key new_key request_order =
     (let inst1 = inst\<lparr>panel_order := update_key_order (panel_order inst) request_order old_key new_key\<rparr>;
          res = update_key_name env io_ok fs yaml_file title old_key new_key;
          success = fst res;
          fs1 = snd res
      in (success, fs1,
          if success then snd (dynamic_output_types env fs1 inst1 yaml_file title title) else inst1))"

text \<open>The \<^verbatim>\<open>update_value\<close> handler up to the schema refresh (lines 456-463): whether
  the warning was printed, the flag of the response, the directory and the
  singleton.\<close>

definition update_value ::
  "pyenv \<Rightarrow> bool \<Rightarrow> filesys \<Rightarrow> node_state \<Rightarrow> string \<Rightarrow> string \<Rightarrow> string \<Rightarrow> string \<Rightarrow> yaml
     \<Rightarrow> bool \<Rightarrow> bool \<times> bool \<times> filesys \<times> node_state" where
  "update_value env io_ok fs inst yaml_file title key_name key_type key_value update_outputs =
     (let warned = (\<not> validate_value_type env key_type key_value);
          res = add_value env io_ok fs yaml_file title key_name (YStr key_type) key_value;
          success = fst res;
          fs1 = snd res
      in (warned, success, fs1,
          if success \<and> update_outputs
          then snd (dynamic_output_types env fs1 inst yaml_file title title) else inst))"

section \<open>The prompt list node (nodes/prompt_list_node.py)\<close>

text \<open>\<^verbatim>\<open>NS_PromptList._save_yaml\<close> dumps with \<^verbatim>\<open>sort_keys=True\<close>: the representer sorts
  the items of every mapping by key before it emits them.\<close>

fun sort_keys :: "yaml \<Rightarrow> yaml" where
  "sort_keys (YMap m) = YMap (sort_key fst (map (\<lambda>item. (fst item, sort_keys (snd item))) m))"
| "sort_keys (YSeq xs) = YSeq (map sort_keys xs)"
| "sort_keys y = y"

definition pl_save_yaml :: "pyenv \<Rightarrow> bool \<Rightarrow> filesys \<Rightarrow> string \<Rightarrow> yaml \<Rightarrow> filesys option" where
  "pl_save_yaml env io_ok fs yaml_file data =
     (if io_ok \<and> yaml_file \<noteq> [] then Some (fs(yaml_file \<mapsto> yaml_emit env (sort_keys data)))
      else None)"

text \<open>Lines 331-333 of \<^verbatim>\<open>NS_PromptList.run\<close>: the entry of the title, created when
  absent, gets the prompt. \<^verbatim>\<open>None\<close> is the TypeError of an item assignment on
  something that is not a mapping.\<close>

definition pl_set_prompt :: "yaml \<Rightarrow> string \<Rightarrow> string \<Rightarrow> yaml option" where
  "pl_set_prompt data title prompt =
     (case data of
        YMap m \<Rightarrow>
          (let m1 = (if \<not> dict_has m title then dict_set m title (YMap []) else m)
           in case dict_get m1 title YNull of
                YMap entry \<Rightarrow>
                  Some (YMap (dict_set m1 title (YMap (dict_set entry ''prompt'' (YStr prompt)))))
              | _ \<Rightarrow> None)
      | _ \<Rightarrow> None)"

text \<open>What \<^verbatim>\<open>asyncio.get_event_loop()\<close> finds: a running loop (the save is scheduled
  as a task), an idle loop (the save runs to its end), or no loop for this thread
  (a RuntimeError, handled by \<^verbatim>\<open>asyncio.run\<close>).\<close>

datatype loop_state = LoopRunning | LoopIdle | NoLoop

text \<open>\<^verbatim>\<open>NS_PromptList.run\<close>: the tuple returned or the exception that leaves it, and
  the directory afterwards. The \<^verbatim>\<open>try\<close> has two handlers: \<^verbatim>\<open>except RuntimeError\<close>
  saves again with \<^verbatim>\<open>asyncio.run\<close>, outside any handler; \<^verbatim>\<open>except Exception\<close> prints.\<close>

definition pl_run ::
  "pyenv \<Rightarrow> bool \<Rightarrow> loop_state \<Rightarrow> filesys \<Rightarrow> string \<Rightarrow> string \<Rightarrow> string \<Rightarrow> string
     \<Rightarrow> (pyerr + string list) \<times> filesys" where
  "pl_run env io_ok loop fs select_yaml select title prompt =
     (if title \<noteq> [] \<and> prompt \<noteq> [] then
        (case (if path_exists fs select_yaml then load_data env fs select_yaml else Some (YMap [])) of
           None \<Rightarrow> (Inr [prompt], fs)
         | Some data0 \<Rightarrow>
             (case pl_set_prompt data0 title prompt of
                None \<Rightarrow> (Inr [prompt], fs)
              | Some data \<Rightarrow>
                  (case loop of
                     LoopRunning \<Rightarrow> (Inr [prompt], fs)
                   | LoopIdle \<Rightarrow>
                       (case pl_save_yaml env io_ok fs select_yaml data of
                          None \<Rightarrow> (Inr [prompt], fs)
                        | Some fs' \<Rightarrow> (Inr [prompt], fs'))
                   | NoLoop \<Rightarrow>
                       (case pl_save_yaml env io_ok fs select_yaml data of
                          None \<Rightarrow> (Inl OSError, fs)
                        | Some fs' \<Rightarrow> (Inr [prompt], fs')))))
      else (Inr [prompt], fs))"

section \<open>A concrete runtime and directory for the examples\<close>

text \<open>A loader that reads the text \<open><doc>\<close> as the given document and the recovery
  comment as the null document, and fails on every other text; a dumper that writes
  the given document as \<open><doc>\<close>.\<close>

definition example_env :: "yaml \<Rightarrow> pyenv" where
  "example_env doc =
     \<lparr>yaml_load = (\<lambda>s. if s = ''<doc>'' then Some doc
                       else if s = placeholder_text then Some YNull else None),
      yaml_emit = (\<lambda>t. if t = doc then ''<doc>'' else ''<other>''),
      py_repr = (\<lambda>y. ''<object>''),
      ordered_dict_of = (\<lambda>y. None),
      int_max_str_digits = 4300,
      now_stamp = ''20250101_120000''\<rparr>"

definition example_inst :: "string list \<Rightarrow> node_state" where
  "example_inst po =
     \<lparr>panel_order = po, workflow_loading = False,
      dynamic_output_types_attr = [], dynamic_output_names_attr = [],
      RETURN_TYPES = [''STRING''], RETURN_NAMES = [''output'']\<rparr>"

definition example_panel :: "(string \<times> yaml) list" where
  "example_panel =
     [(''a'', YMap [(''type'', YStr ''int''), (''value'', YStr ''7'')]),
      (''b'', YMap [(''type'', YStr ''float''), (''value'', YStr ''0.5'')]),
      (''c'', YMap [(''type'', YStr ''string''), (''value'', YStr ''hi'')])]"

definition example_doc :: yaml where
  "example_doc = YMap [(''example'', YMap [(''values'', YMap example_panel)])]"

section \<open>Fields of a panel, to state the properties\<close>

text \<open>A key of the panel is processed as a field when its entry is a mapping; the
  declared type of a field defaults to \<open>string\<close>, as both loops have it.\<close>

definition is_field :: "(string \<times> yaml) list \<Rightarrow> string \<Rightarrow> bool" where
  "is_field values key = (case map_of values key of Some (YMap value_data) \<Rightarrow> True | _ \<Rightarrow> False)"

definition field_of :: "(string \<times> yaml) list \<Rightarrow> string \<Rightarrow> (string \<times> yaml) list" where
  "field_of values key = (case map_of values key of Some (YMap value_data) \<Rightarrow> value_data | _ \<Rightarrow> [])"

definition field_type :: "(string \<times> yaml) list \<Rightarrow> string \<Rightarrow> yaml" where
  "field_type values key = dict_get (field_of values key) ''type'' (YStr ''string'')"

text \<open>The panel that \<^verbatim>\<open>dynamic_output_types\<close> reads: the mapping under \<^verbatim>\<open>values\<close> of the
  preset, when the document and the preset are mappings.\<close>

definition loaded_panel :: "pyenv \<Rightarrow> filesys \<Rightarrow> string \<Rightarrow> string \<Rightarrow> (string \<times> yaml) list option" where
  "loaded_panel env fs select_yaml title =
     (case load_data env fs select_yaml of
        Some (YMap data) \<Rightarrow>
          (case map_of data title of
             Some (YMap preset) \<Rightarrow>
               (case dict_get preset ''values'' (YMap []) of
                  YMap values \<Rightarrow> Some values
                | _ \<Rightarrow> None)
           | _ \<Rightarrow> None)
      | _ \<Rightarrow> None)"

text \<open>The renaming of one key, to state what \<^verbatim>\<open>_update_key_name\<close> writes.\<close>

definition rename_key :: "string \<Rightarrow> string \<Rightarrow> string \<Rightarrow> string" where
  "rename_key old_key new_key k = (if k = old_key then new_key else k)"

text \<open>The preset of the rename example: the fields width, height, depth.\<close>

definition dims_panel :: "(string \<times> yaml) list" where
  "dims_panel =
     [(''width'', YMap [(''type'', YStr ''int''), (''value'', YStr ''512'')]),
      (''height'', YMap [(''type'', YStr ''int''), (''value'', YStr ''768'')]),
      (''depth'', YMap [(''type'', YStr ''int''), (''value'', YStr ''3'')])]"

definition dims_doc :: yaml where
  "dims_doc = YMap [(''portrait'', YMap [(''values'', YMap dims_panel)])]"

text \<open>A preset whose only field is declared \<open>int\<close> and holds a word.\<close>

definition bad_doc :: yaml where
  "bad_doc =
     YMap [(''hero'', YMap [(''values'', YMap
        [(''w'', YMap [(''type'', YStr ''int''), (''value'', YStr ''abc'')])])])]"

text \<open>The preset and the panel that \<^verbatim>\<open>_add_value\<close> finds or creates, and the
  documents of the data model: a preset, when present, is a mapping, and so is its
  panel.\<close>

definition preset_of :: "(string \<times> yaml) list \<Rightarrow> string \<Rightarrow> (string \<times> yaml) list" where
  "preset_of data title =
     (case map_of data title of Some (YMap preset) \<Rightarrow> preset | _ \<Rightarrow> [(''values'', YMap [])])"

definition panel_of :: "(string \<times> yaml) list \<Rightarrow> (string \<times> yaml) list" where
  "panel_of preset = (case map_of preset ''values'' of Some (YMap values) \<Rightarrow> values | _ \<Rightarrow> [])"

definition well_formed :: "(string \<times> yaml) list \<Rightarrow> string \<Rightarrow> bool" where
  "well_formed data title =
     (case map_of data title of
        None \<Rightarrow> True
      | Some (YMap preset) \<Rightarrow>
          (case map_of preset ''values'' of None \<Rightarrow> True | Some (YMap values) \<Rightarrow> True | _ \<Rightarrow> False)
      | _ \<Rightarrow> False)"

text \<open>A prompt list whose titles are not in alphabetical order.\<close>

definition zoo_doc :: yaml where
  "zoo_doc = YMap [(''zebra'', YMap [(''prompt'', YStr ''stripes'')]),
                   (''apple'', YMap [(''prompt'', YStr ''red'')])]"

section \<open>Verified properties\<close>

subsection \<open>Arity of the evaluation tuple\<close>

lemma length_reconcile: "length (reconcile outs vs) = length outs"
  by (simp add: reconcile_def Let_def)

lemma pad_upt: "map (\<lambda>i. pad_value (outs ! i)) [a ..< length outs] = map pad_value (drop a outs)"
  by (rule nth_equalityI) auto

lemma reconcile_closed:
  "reconcile outs vs =
     (let vs' = (if vs = [] then [PStr []] else vs)
      in take (length outs) vs' @ map pad_value (drop (length vs') outs))"
  by (simp add: reconcile_def Let_def pad_upt)

text \<open>
  Claim C1. Whenever \<^verbatim>\<open>run\<close> returns a tuple, the tuple has as many elements as the
  list of output types that \<^verbatim>\<open>dynamic_output_types\<close> gives for the same document
  directory, singleton and arguments. The tuple is the list of converted values (or
  the single empty string when there is none), cut to the number of output types
  when it is longer, and extended when it is shorter by the zero value of the type
  declared at each missing position: \<open>0\<close> for INT, \<open>0.0\<close> for FLOAT, the empty string
  for STRING. This holds whether \<^verbatim>\<open>self\<close> is the singleton or another object with a
  panel order of its own, and whether the preset is created first or not.
\<close>

theorem run_arity_matches_schema:
  assumes "fst (run env io_ok deferred fs inst self_order select_yaml select_preset input_preset_name)
             = Inr t"
  shows "(let r = run env io_ok deferred fs inst self_order select_yaml select_preset input_preset_name;
              fs1 = fst (snd r);
              inst1 = snd (snd r);
              outputs = fst (fst (dynamic_output_types env fs1 inst
                                    select_yaml select_preset input_preset_name))
          in length t = length outputs
             \<and> (\<exists>vs. build_output_values env
                         (case self_order of None \<Rightarrow> panel_order inst1 | Some p \<Rightarrow> p)
                         (get_values_from_yaml env fs1 select_yaml
                            (if input_preset_name \<noteq> [] then input_preset_name else select_preset))
                       = Inr vs
                    \<and> t = (let vs' = (if vs = [] then [PStr []] else vs)
                           in take (length outputs) vs' @ map pad_value (drop (length vs') outputs))))
         \<and> pad_value ''INT'' = PInt 0
         \<and> pad_value ''FLOAT'' = PFloat (FloatVal (Fin 0))
         \<and> pad_value ''STRING'' = PStr []"
proof -
  let ?title = "if input_preset_name \<noteq> [] then input_preset_name else select_preset"
  let ?r = "run env io_ok deferred fs inst self_order select_yaml select_preset input_preset_name"
  let ?fs1 = "fst (snd ?r)"
  let ?dyn = "dynamic_output_types env ?fs1 inst select_yaml select_preset input_preset_name"
  have fs1: "?fs1 = (if ?title \<noteq> [] \<and> select_yaml \<noteq> [] \<and> \<not> deferred
                 then snd (ensure_title_exists env io_ok fs select_yaml ?title) else fs)"
    by (simp add: run_def Let_def)
  have inst1: "snd (snd ?r) = snd ?dyn"
    unfolding fs1 by (simp add: run_def Let_def)
  from assms obtain vs where
    vs: "build_output_values env (case self_order of None \<Rightarrow> panel_order (snd (snd ?r)) | Some p \<Rightarrow> p)
           (get_values_from_yaml env ?fs1 select_yaml ?title) = Inr vs"
    and t: "t = reconcile (fst (fst ?dyn)) vs"
    unfolding fs1 inst1 by (auto simp: run_def Let_def split: sum.splits)
  have "length t = length (fst (fst ?dyn))"
    by (simp add: t length_reconcile)
  moreover have "pad_value ''INT'' = PInt 0" "pad_value ''FLOAT'' = PFloat (FloatVal (Fin 0))"
    "pad_value ''STRING'' = PStr []"
    by (simp_all add: pad_value_def)
  moreover have "t = (let vs' = (if vs = [] then [PStr []] else vs)
                      in take (length (fst (fst ?dyn))) vs' @ map pad_value (drop (length vs') (fst (fst ?dyn))))"
    unfolding t by (rule reconcile_closed)
  ultimately show ?thesis
    using vs unfolding Let_def by blast
qed

text \<open>The example: \<^verbatim>\<open>self\<close> is an object with an empty panel order while the
  singleton has the order c, a, b, a. The schema has four entries, three values are
  read, and the fourth position, declared INT, is filled with \<open>0\<close>.\<close>

theorem run_arity_matches_schema_witness:
  "fst (run (example_env example_doc) True True [''default.yaml'' \<mapsto> ''<doc>'']
          (example_inst [''c'', ''a'', ''b'', ''a'']) (Some []) ''default.yaml'' ''example'' [])
     = Inr [PInt 7, PFloat (FloatOfStr ''0.5''), PStr ''hi'', PInt 0]
   \<and> length [PInt 7, PFloat (FloatOfStr ''0.5''), PStr ''hi'', PInt 0]
       = length (fst (fst (dynamic_output_types (example_env example_doc)
                   (fst (snd (run (example_env example_doc) True True
                                [''default.yaml'' \<mapsto> ''<doc>'']
                                (example_inst [''c'', ''a'', ''b'', ''a'']) (Some [])
                                ''default.yaml'' ''example'' [])))
                   (example_inst [''c'', ''a'', ''b'', ''a'']) ''default.yaml'' ''example'' [])))"
proof -
  have h: "fst (run (example_env example_doc) True True [''default.yaml'' \<mapsto> ''<doc>'']
                 (example_inst [''c'', ''a'', ''b'', ''a'']) (Some []) ''default.yaml'' ''example'' [])
             = Inr [PInt 7, PFloat (FloatOfStr ''0.5''), PStr ''hi'', PInt 0]"
    by code_simp
  show ?thesis
    using run_arity_matches_schema [OF h] h unfolding Let_def by blast
qed

subsection \<open>The processing order\<close>

lemma dict_has_map_of: "dict_has m k \<longleftrightarrow> map_of m k \<noteq> None"
  by (simp add: dict_has_def dict_keys_def map_of_eq_None_iff)

lemma panel_keys_in_filter: "panel_keys_in values acc po = acc @ filter (dict_has values) po"
  by (induction po arbitrary: acc) auto

lemma run_panel_loop_filter: "run_panel_loop values po acc = acc @ filter (dict_has values) po"
  by (induction po arbitrary: acc) (auto simp: dict_has_def dict_keys_def)

lemma run_yaml_loop_eq: "run_yaml_loop keys acc = append_missing acc keys"
  by (induction keys arbitrary: acc) auto

lemma append_missing_distinct:
  "distinct keys \<Longrightarrow> append_missing acc keys = acc @ filter (\<lambda>k. k \<notin> set acc) keys"
proof (induction keys arbitrary: acc)
  case Nil then show ?case by simp
next
  case (Cons k keys)
  then show ?case by (auto intro!: filter_cong)
qed

lemma keys_same: "run_keys_to_process po values = schema_keys_to_process po values"
  by (simp add: run_keys_to_process_def schema_keys_to_process_def run_yaml_loop_eq
      run_panel_loop_filter panel_keys_in_filter dict_keys_def)

lemma keys_closed:
  assumes "distinct (map fst values)"
  shows "schema_keys_to_process po values =
     filter (\<lambda>k. k \<in> fst ` set values) po @ filter (\<lambda>k. k \<notin> set po) (map fst values)"
proof -
  have "filter (\<lambda>k. k \<notin> set (filter (dict_has values) po)) (map fst values)
      = filter (\<lambda>k. k \<notin> set po) (map fst values)"
    by (rule filter_cong) (auto simp: dict_has_def dict_keys_def)
  with assms show ?thesis
    by (auto simp: schema_keys_to_process_def panel_keys_in_filter append_missing_distinct
        dict_keys_def dict_has_def cong: filter_cong)
qed

lemma schema_entries_map:
  "schema_entries env values ks =
     map (\<lambda>k. (output_type_of (field_type values k), k @ ''_'' @ py_str env (field_type values k)))
       (filter (is_field values) ks)"
  by (induction ks)
    (auto simp: dict_has_map_of dict_get_def is_field_def field_of_def field_type_def Let_def
      split: option.splits yaml.splits)

lemma convert_values_acc:
  "convert_values env values ks acc = Inr vs \<Longrightarrow>
     \<exists>ws. vs = acc @ ws
       \<and> list_all2 (\<lambda>k v. convert_field env k (field_of values k) = Inr v) (filter (is_field values) ks) ws"
proof (induction ks arbitrary: acc)
  case Nil then show ?case by simp
next
  case (Cons k ks)
  show ?case
  proof (cases "is_field values k")
    case True
    then obtain vd where vd: "map_of values k = Some (YMap vd)"
      by (auto simp: is_field_def split: option.splits yaml.splits)
    with Cons.prems obtain x where x: "convert_field env k vd = Inr x"
      and rest: "convert_values env values ks (acc @ [x]) = Inr vs"
      by (auto simp: dict_has_map_of dict_get_def split: sum.splits)
    from Cons.IH [OF rest] obtain ws where "vs = (acc @ [x]) @ ws"
      "list_all2 (\<lambda>k v. convert_field env k (field_of values k) = Inr v) (filter (is_field values) ks) ws"
      by blast
    with True vd x show ?thesis
      by (intro exI [of _ "x # ws"]) (simp add: field_of_def)
  next
    case False
    with Cons.prems have "convert_values env values ks acc = Inr vs"
      by (auto simp: dict_has_map_of dict_get_def is_field_def split: option.splits yaml.splits if_splits)
    from Cons.IH [OF this] False show ?thesis by simp
  qed
qed

text \<open>Given the same tracker list, the two loops compute the same processing order:
  for a panel with distinct keys, the tracker entries that are keys of the panel, in
  tracker order, then the keys of the panel that the tracker does not hold, in on-disk
  order. The schema has one entry for each processed key that is a field, and when the
  conversion succeeds the values are those of the same keys in the same order.\<close>

lemma processing_order_shared:
  assumes "distinct (map fst values)"
  shows "schema_keys_to_process po values
           = filter (\<lambda>k. k \<in> fst ` set values) po @ filter (\<lambda>k. k \<notin> set po) (map fst values)
       \<and> run_keys_to_process po values = schema_keys_to_process po values
       \<and> schema_entries env values (schema_keys_to_process po values)
           = map (\<lambda>k. (output_type_of (field_type values k), k @ ''_'' @ py_str env (field_type values k)))
               (filter (is_field values) (schema_keys_to_process po values))
       \<and> (case convert_values env values (run_keys_to_process po values) [] of
            Inl e \<Rightarrow> True
          | Inr vs \<Rightarrow> list_all2 (\<lambda>k v. convert_field env k (field_of values k) = Inr v)
                       (filter (is_field values) (schema_keys_to_process po values)) vs)"
proof -
  have "list_all2 (\<lambda>k v. convert_field env k (field_of values k) = Inr v)
          (filter (is_field values) (schema_keys_to_process po values)) vs"
    if "convert_values env values (run_keys_to_process po values) [] = Inr vs" for vs
    using convert_values_acc [OF that] by (simp add: keys_same)
  then show ?thesis
    using keys_closed [OF assms] keys_same schema_entries_map
    by (auto split: sum.splits)
qed

text \<open>The example of the specification: tracker b, a and a panel with the fields
  a, b, c on disk give the order b, a, c in both loops.\<close>

lemma processing_order_example:
  "distinct (map fst example_panel)
   \<and> schema_keys_to_process [''b'', ''a''] example_panel = [''b'', ''a'', ''c'']
   \<and> run_keys_to_process [''b'', ''a''] example_panel = [''b'', ''a'', ''c'']"
proof -
  have d: "distinct (map fst example_panel)"
    by (simp add: example_panel_def)
  have "filter (\<lambda>k. k \<in> fst ` set example_panel) [''b'', ''a'']
          @ filter (\<lambda>k. k \<notin> set [''b'', ''a'']) (map fst example_panel) = [''b'', ''a'', ''c'']"
    by (simp add: example_panel_def)
  with processing_order_shared [OF d, of "[''b'', ''a'']"] d show ?thesis
    by simp
qed

text \<open>
  Claim C2. The order of the schema and the order of the values are meant to be the
  same: \<^verbatim>\<open>run\<close> repeats the loop of \<^verbatim>\<open>dynamic_output_types\<close>. But the schema is ordered
  by the tracker of the singleton and the values by the tracker of the object that
  runs. With the tracker b, a set on the singleton and a panel a, b, c, the schema is
  b, a, c; a run on another object, whose own tracker is empty, returns the values of
  a, b, c in that order under it. A run on the singleton itself returns them in the
  order of the schema.
\<close>

theorem run_order_differs_from_schema:
  "fst (dynamic_output_types (example_env example_doc) [''default.yaml'' \<mapsto> ''<doc>'']
         (example_inst [''b'', ''a'']) ''default.yaml'' ''example'' [])
     = ([''FLOAT'', ''INT'', ''STRING''], [''b_float'', ''a_int'', ''c_string''])
   \<and> fst (run (example_env example_doc) True True [''default.yaml'' \<mapsto> ''<doc>'']
            (example_inst [''b'', ''a'']) (Some []) ''default.yaml'' ''example'' [])
       = Inr [PInt 7, PFloat (FloatOfStr ''0.5''), PStr ''hi'']
   \<and> fst (run (example_env example_doc) True True [''default.yaml'' \<mapsto> ''<doc>'']
            (example_inst [''b'', ''a'']) None ''default.yaml'' ''example'' [])
       = Inr [PFloat (FloatOfStr ''0.5''), PInt 7, PStr ''hi'']"
  by code_simp

subsection \<open>The schema\<close>

lemma read_schema_panel:
  "read_schema env fs po select_yaml title =
     (case loaded_panel env fs select_yaml title of
        None \<Rightarrow> []
      | Some values \<Rightarrow> schema_entries env values (schema_keys_to_process po values))"
  by (auto simp: read_schema_def loaded_panel_def dict_has_map_of dict_get_def
      split: option.splits yaml.splits)

text \<open>
  Claim C3, as amended. When the preset name or the document name is empty, the
  schema is the default entry (STRING, \<open>output\<close>), except while the singleton's
  workflow-loading flag is set: then both lists are empty. When the document file
  does not exist, the schema is the default entry. Otherwise the schema has at least
  one entry: the default entry when the document does not load to a mapping whose
  preset holds a mapping panel, or when no processed key is a field; else one entry
  for each key of the processing order that is a field, in that order, named
  \<open><key>_<declared type>\<close>, of type INT for \<open>int\<close>, FLOAT for \<open>float\<close> and STRING for
  anything else.
\<close>

theorem schema_default_or_fields:
  "(let title = (if input_preset_name \<noteq> [] then input_preset_name else select_preset);
        res = fst (dynamic_output_types env fs inst select_yaml select_preset input_preset_name)
    in if title = [] \<or> select_yaml = [] then
         res = (if workflow_loading inst then ([], []) else ([''STRING''], [''output'']))
       else if \<not> path_exists fs select_yaml then res = ([''STRING''], [''output''])
       else 1 \<le> length (fst res) \<and> length (snd res) = length (fst res)
            \<and> (case loaded_panel env fs select_yaml title of
                  None \<Rightarrow> res = ([''STRING''], [''output''])
                | Some values \<Rightarrow>
                    (let fields = filter (is_field values)
                                    (schema_keys_to_process (panel_order inst) values)
                     in if fields = [] then res = ([''STRING''], [''output''])
                        else res = (map (\<lambda>k. output_type_of (field_type values k)) fields,
                                    map (\<lambda>k. k @ ''_'' @ py_str env (field_type values k)) fields))))
   \<and> output_type_of (YStr ''int'') = ''INT''
   \<and> output_type_of (YStr ''float'') = ''FLOAT''
   \<and> (\<forall>t. t \<noteq> YStr ''int'' \<and> t \<noteq> YStr ''float'' \<longrightarrow> output_type_of t = ''STRING'')"
  by (auto simp: dynamic_output_types_def Let_def read_schema_panel schema_entries_map
      output_type_of_def comp_def Suc_le_eq split: option.splits)

theorem schema_default_or_fields_witness:
  "fst (dynamic_output_types (example_env example_doc) [''default.yaml'' \<mapsto> ''<doc>'']
         (example_inst [''b'', ''a'']) ''default.yaml'' ''example'' [])
     = ([''FLOAT'', ''INT'', ''STRING''], [''b_float'', ''a_int'', ''c_string''])"
proof -
  let ?fs = "[''default.yaml'' \<mapsto> ''<doc>'']"
  have lp: "loaded_panel (example_env example_doc) ?fs ''default.yaml'' ''example''
              = Some example_panel"
    by code_simp
  have pe: "path_exists ?fs ''default.yaml''"
    by (simp add: path_exists_def)
  have po: "panel_order (example_inst [''b'', ''a'']) = [''b'', ''a'']"
    by (simp add: example_inst_def)
  have fk: "filter (is_field example_panel) (schema_keys_to_process [''b'', ''a''] example_panel)
              = [''b'', ''a'', ''c'']"
    by code_simp
  have ty: "output_type_of (field_type example_panel ''b'') = ''FLOAT''"
    "output_type_of (field_type example_panel ''a'') = ''INT''"
    "output_type_of (field_type example_panel ''c'') = ''STRING''"
    by code_simp+
  have nm: "py_str (example_env example_doc) (field_type example_panel ''b'') = ''float''"
    "py_str (example_env example_doc) (field_type example_panel ''a'') = ''int''"
    "py_str (example_env example_doc) (field_type example_panel ''c'') = ''string''"
    by code_simp+
  from schema_default_or_fields [of "[]" "''example''" "example_env example_doc" ?fs
      "example_inst [''b'', ''a'']" "''default.yaml''"]
  show ?thesis
    by (simp add: Let_def lp pe po fk ty nm)
qed

text \<open>The claim as stated fails in two places. During a workflow load an empty
  preset name gives an empty schema; and a tracker that names a field twice gives
  that field two entries, four entries for the three fields of the example.\<close>

theorem schema_length_counterexample:
  "\<not> 1 \<le> length (fst (fst (dynamic_output_types (example_env example_doc)
                     [''default.yaml'' \<mapsto> ''<doc>'']
                     ((example_inst [])\<lparr>workflow_loading := True\<rparr>) ''default.yaml'' [] [])))
   \<and> fst (dynamic_output_types (example_env example_doc) [''default.yaml'' \<mapsto> ''<doc>'']
           (example_inst [''a'', ''a'']) ''default.yaml'' ''example'' [])
       = ([''INT'', ''INT'', ''FLOAT'', ''STRING''], [''a_int'', ''a_int'', ''b_float'', ''c_string''])
   \<and> length example_panel = 3"
  by code_simp

subsection \<open>Recovery from a corrupt file\<close>





subsection \<open>Renaming a field\<close>

lemma dict_set_fresh: "k \<notin> fst ` set m \<Longrightarrow> dict_set m k v = m @ [(k, v)]"
  by (induction m) auto

lemma rename_items_acc:
  assumes "distinct (map fst items)" and "new_key \<notin> fst ` set items"
    and "fst ` set acc \<inter> rename_key old_key new_key ` fst ` set items = {}"
  shows "rename_items old_key new_key items acc
           = acc @ map (\<lambda>(k, v). (rename_key old_key new_key k, v)) items"
  using assms
proof (induction items arbitrary: acc)
  case Nil
  then show ?case by simp
next
  case (Cons item items)
  obtain k v where item: "item = (k, v)" by (cases item)
  let ?k' = "rename_key old_key new_key k"
  from Cons.prems(3) have fresh: "?k' \<notin> fst ` set acc"
    by (auto simp: item)
  have step: "rename_items old_key new_key (item # items) acc
                = rename_items old_key new_key items (acc @ [(?k', v)])"
    using fresh by (auto simp: item rename_key_def dict_set_fresh split: if_splits)
  have inj: "?k' \<notin> rename_key old_key new_key ` fst ` set items"
    using Cons.prems(1,2) by (auto simp: item rename_key_def image_iff split: if_splits)
  have "fst ` set (acc @ [(?k', v)]) \<inter> rename_key old_key new_key ` fst ` set items = {}"
    using Cons.prems(3) inj by (auto simp: item)
  moreover have "distinct (map fst items)" "new_key \<notin> fst ` set items"
    using Cons.prems(1,2) by auto
  ultimately have "rename_items old_key new_key items (acc @ [(?k', v)])
      = (acc @ [(?k', v)]) @ map (\<lambda>(k, v). (rename_key old_key new_key k, v)) items"
    by (rule Cons.IH [rotated 2])
  with step show ?case by (simp add: item)
qed

lemma rename_items_map:
  "distinct (map fst values) \<Longrightarrow> new_key \<notin> fst ` set values \<Longrightarrow>
     rename_items old_key new_key values [] = map (\<lambda>(k, v). (rename_key old_key new_key k, v)) values"
  using rename_items_acc [of "values" new_key "[]" old_key] by simp

lemma index_of_props:
  "x \<in> set xs \<Longrightarrow> index_of x xs < length xs \<and> xs ! index_of x xs = x
      \<and> (\<forall>j < index_of x xs. xs ! j \<noteq> x)"
proof (induction xs)
  case Nil then show ?case by simp
next
  case (Cons y ys)
  show ?case
  proof (cases "y = x")
    case True then show ?thesis by simp
  next
    case False
    with Cons have IH: "index_of x ys < length ys \<and> ys ! index_of x ys = x
      \<and> (\<forall>j < index_of x ys. ys ! j \<noteq> x)" by simp
    with False show ?thesis by (auto simp: nth_Cons split: nat.splits)
  qed
qed


lemma load_data_SomeD:
  "load_data env fs yaml_file = Some d \<Longrightarrow> yaml_file \<noteq> [] \<and> fs yaml_file \<noteq> None"
  by (auto simp: load_data_def split: if_splits option.splits)

lemma dynamic_output_types_keeps_order:
  "title \<noteq> [] \<Longrightarrow> yaml_file \<noteq> [] \<Longrightarrow> fs yaml_file \<noteq> None \<Longrightarrow>
     panel_order (snd (dynamic_output_types env fs inst yaml_file title title)) = panel_order inst"
  by (simp add: dynamic_output_types_def Let_def path_exists_def)

lemma dynamic_output_types_resets_order:
  "panel_order (snd (dynamic_output_types env fs inst yaml_file [] []))
     = (if workflow_loading inst then panel_order inst else [])"
  by (simp add: dynamic_output_types_def Let_def set_default_def)

text \<open>
  Claim C5, as amended. For a document whose preset holds a panel (a mapping with
  distinct keys): \<^verbatim>\<open>_update_key_name\<close> writes nothing and returns \<^verbatim>\<open>False\<close> when the old
  and the new name are equal, when the new name is empty, or when the old name is
  not a field of the panel. Otherwise, when the new name is not already a field, it
  writes the document with the panel's old key replaced by the new one at the same
  position, all other fields and their order unchanged, and returns \<^verbatim>\<open>True\<close>; when
  the write fails it returns \<^verbatim>\<open>False\<close> and the directory is unchanged. After a
  successful rename through the \<^verbatim>\<open>update_key\<close> handler of a preset whose name is not
  empty, the tracker is unchanged when it does not hold the old name; when it does,
  the tracker is the order sent with the request if there is one and it is not
  empty, and otherwise the new name replaces the old one at its first position. For
  the preset with the empty name the schema refresh that follows the rename leaves the
  tracker empty, or as just described while a workflow is loading.
\<close>

theorem rename_key_in_place:
  assumes "load_data env fs yaml_file = Some (YMap data)"
    and "map_of data title = Some (YMap preset)"
    and "map_of preset ''values'' = Some (YMap values)"
    and "distinct (map fst values)"
  shows "(old_key = new_key \<or> new_key = [] \<or> old_key \<notin> fst ` set values \<longrightarrow>
            update_key_name env io_ok fs yaml_file title old_key new_key = (False, fs))
       \<and> (old_key \<noteq> new_key \<and> new_key \<noteq> [] \<and> old_key \<in> fst ` set values
            \<and> new_key \<notin> fst ` set values \<longrightarrow>
            update_key_name env io_ok fs yaml_file title old_key new_key
              = (if io_ok then
                   (True, fs(yaml_file \<mapsto> yaml_emit env
                      (YMap (dict_set data title
                         (YMap (dict_set preset ''values''
                            (YMap (map (\<lambda>(k, v). (rename_key old_key new_key k, v)) values))))))))
                 else (False, fs))
            \<and> (io_ok \<longrightarrow>
                 panel_order (snd (snd (update_key env io_ok fs inst yaml_file title
                                          old_key new_key request_order)))
                   = (if title = [] \<and> \<not> workflow_loading inst then []
                      else if old_key \<notin> set (panel_order inst) then panel_order inst
                      else case request_order of
                             Some (k # ks) \<Rightarrow> k # ks
                           | _ \<Rightarrow> (panel_order inst)
                                    [index_of old_key (panel_order inst) := new_key])))
       \<and> (old_key \<in> set (panel_order inst) \<longrightarrow>
            index_of old_key (panel_order inst) < length (panel_order inst)
            \<and> panel_order inst ! index_of old_key (panel_order inst) = old_key
            \<and> (\<forall>j < index_of old_key (panel_order inst). panel_order inst ! j \<noteq> old_key))"
proof -
  from assms(1) have nm: "yaml_file \<noteq> []" "fs yaml_file \<noteq> None"
    using load_data_SomeD by blast+
  then have pe: "path_exists fs yaml_file"
    by (simp add: path_exists_def)
  have hd: "dict_has data title" "dict_get data title YNull = YMap preset"
    using assms(2) by (simp_all add: dict_has_map_of dict_get_def)
  have hp: "dict_has preset ''values''" "dict_get preset ''values'' YNull = YMap values"
    using assms(3) by (simp_all add: dict_has_map_of dict_get_def)
  have hv: "dict_has values old_key \<longleftrightarrow> old_key \<in> fst ` set values"
    by (simp add: dict_has_def dict_keys_def)
  have fail: "update_key_name env io_ok fs yaml_file title old_key new_key = (False, fs)"
    if "old_key = new_key \<or> new_key = [] \<or> old_key \<notin> fst ` set values"
    using that pe assms(1) hd hp hv by (auto simp: update_key_name_def)
  have ok: "update_key_name env io_ok fs yaml_file title old_key new_key
              = (if io_ok then
                   (True, fs(yaml_file \<mapsto> yaml_emit env
                      (YMap (dict_set data title
                         (YMap (dict_set preset ''values''
                            (YMap (map (\<lambda>(k, v). (rename_key old_key new_key k, v)) values))))))))
                 else (False, fs))"
    if "old_key \<noteq> new_key" "new_key \<noteq> []" "old_key \<in> fst ` set values"
      "new_key \<notin> fst ` set values"
    using that pe assms(1) hd hp hv nm rename_items_map [OF assms(4) that(4), of old_key]
    by (simp add: update_key_name_def save_yaml_def)
  have upd: "update_key_order (panel_order inst) request_order old_key new_key
               = (if old_key \<notin> set (panel_order inst) then panel_order inst
                  else case request_order of
                         Some (k # ks) \<Rightarrow> k # ks
                       | _ \<Rightarrow> (panel_order inst)
                                [index_of old_key (panel_order inst) := new_key])"
    by (auto simp: update_key_order_def split: option.splits list.splits)
  have tr: "panel_order (snd (snd (update_key env io_ok fs inst yaml_file title
                                          old_key new_key request_order)))
                   = (if title = [] \<and> \<not> workflow_loading inst then []
                      else if old_key \<notin> set (panel_order inst) then panel_order inst
                      else case request_order of
                             Some (k # ks) \<Rightarrow> k # ks
                           | _ \<Rightarrow> (panel_order inst)
                                    [index_of old_key (panel_order inst) := new_key])"
    if "old_key \<noteq> new_key" "new_key \<noteq> []" "old_key \<in> fst ` set values"
      "new_key \<notin> fst ` set values" "io_ok"
  proof (cases "title = []")
    case True
    then show ?thesis
      using ok [OF that(1-4)] that(5) upd
      by (simp add: update_key_def Let_def dynamic_output_types_resets_order)
  next
    case False
    then show ?thesis
      using ok [OF that(1-4)] that(5) nm upd
      by (simp add: update_key_def Let_def dynamic_output_types_keeps_order)
  qed
  from fail ok tr index_of_props [of old_key "panel_order inst"] show ?thesis
    by blast
qed

text \<open>The example of the specification: height becomes height_px between width
  and depth, in the file and in the tracker.\<close>

theorem rename_key_in_place_witness:
  "update_key_name (example_env dims_doc) True [''sizes.yaml'' \<mapsto> ''<doc>'']
       ''sizes.yaml'' ''portrait'' ''height'' ''height_px''
     = (True, [''sizes.yaml'' \<mapsto> ''<doc>'']
          (''sizes.yaml'' \<mapsto> yaml_emit (example_env dims_doc)
             (YMap [(''portrait'', YMap [(''values'', YMap
                [(''width'', YMap [(''type'', YStr ''int''), (''value'', YStr ''512'')]),
                 (''height_px'', YMap [(''type'', YStr ''int''), (''value'', YStr ''768'')]),
                 (''depth'', YMap [(''type'', YStr ''int''), (''value'', YStr ''3'')])])])])))
   \<and> panel_order (snd (snd (update_key (example_env dims_doc) True
          [''sizes.yaml'' \<mapsto> ''<doc>''] (example_inst [''width'', ''height'', ''depth''])
          ''sizes.yaml'' ''portrait'' ''height'' ''height_px'' None)))
       = [''width'', ''height_px'', ''depth'']"
proof -
  let ?env = "example_env dims_doc"
  let ?fs = "[''sizes.yaml'' \<mapsto> ''<doc>'']"
  let ?inst = "example_inst [''width'', ''height'', ''depth'']"
  have h1: "load_data ?env ?fs ''sizes.yaml''
              = Some (YMap [(''portrait'', YMap [(''values'', YMap dims_panel)])])"
    by (simp add: load_data_def example_env_def dims_doc_def or_empty_def)
  have h2: "map_of [(''portrait'', YMap [(''values'', YMap dims_panel)])] ''portrait''
              = Some (YMap [(''values'', YMap dims_panel)])"
    by simp
  have h3: "map_of [(''values'', YMap dims_panel)] ''values'' = Some (YMap dims_panel)"
    by simp
  have h4: "distinct (map fst dims_panel)"
    by (simp add: dims_panel_def)
  have keys: "''height'' \<noteq> ''height_px''" "''height_px'' \<noteq> []"
    "''height'' \<in> fst ` set dims_panel" "''height_px'' \<notin> fst ` set dims_panel"
    by (simp_all add: dims_panel_def)
  have po: "panel_order ?inst = [''width'', ''height'', ''depth'']"
    by (simp add: example_inst_def)
  have ix: "index_of ''height'' [''width'', ''height'', ''depth''] = 1"
    by simp
  have rn: "map (\<lambda>(k, v). (rename_key ''height'' ''height_px'' k, v)) dims_panel
              = [(''width'', YMap [(''type'', YStr ''int''), (''value'', YStr ''512'')]),
                 (''height_px'', YMap [(''type'', YStr ''int''), (''value'', YStr ''768'')]),
                 (''depth'', YMap [(''type'', YStr ''int''), (''value'', YStr ''3'')])]"
    by (simp add: dims_panel_def rename_key_def)
  from rename_key_in_place [OF h1 h2 h3 h4, of "''height''" "''height_px''" True ?inst None] keys
  show ?thesis
    by (simp add: po ix rn)
qed

text \<open>The claim as stated fails for the handler. An order sent with the request
  replaces the tracker as a whole, whatever it holds; and a rename that reports
  failure, here to the empty name, has already changed the tracker.\<close>

theorem rename_tracker_counterexample:
  "panel_order (snd (snd (update_key (example_env dims_doc) True
       [''sizes.yaml'' \<mapsto> ''<doc>''] (example_inst [''width'', ''height'', ''depth''])
       ''sizes.yaml'' ''portrait'' ''height'' ''height_px''
       (Some [''depth'', ''height_px'', ''width'']))))
     = [''depth'', ''height_px'', ''width'']
   \<and> fst (update_key (example_env dims_doc) True
            [''sizes.yaml'' \<mapsto> ''<doc>''] (example_inst [''width'', ''height'', ''depth''])
            ''sizes.yaml'' ''portrait'' ''height'' [] None) = False
   \<and> panel_order (snd (snd (update_key (example_env dims_doc) True
          [''sizes.yaml'' \<mapsto> ''<doc>''] (example_inst [''width'', ''height'', ''depth''])
          ''sizes.yaml'' ''portrait'' ''height'' [] None)))
       = [''width'', [], ''depth'']"
  by code_simp

subsection \<open>Conversion failures\<close>

lemma set_append_missing: "set (append_missing acc keys) = set acc \<union> set keys"
  by (induction keys arbitrary: acc) auto

lemma all_keys_processed: "fst ` set values \<subseteq> set (run_keys_to_process po values)"
  by (auto simp: keys_same schema_keys_to_process_def set_append_missing dict_keys_def)

lemma convert_field_error:
  "convert_field env k vd = Inl e \<Longrightarrow>
     e = OverflowError
     \<or> e = ValueError (error_msg env (dict_get vd ''value'' (YStr [])) (dict_get vd ''type'' (YStr ''string'')) k)"
  by (auto simp: convert_field_def Let_def reraise_def split: if_splits sum.splits conv_err.splits)

lemma convert_values_step:
  "convert_values env values (x # ks) acc =
     (case map_of values x of
        Some (YMap vd) \<Rightarrow>
          (case convert_field env x vd of
             Inl e \<Rightarrow> Inl e
           | Inr v \<Rightarrow> convert_values env values ks (acc @ [v]))
      | _ \<Rightarrow> convert_values env values ks acc)"
  by (simp add: dict_has_map_of dict_get_def split: option.splits yaml.splits)

lemma convert_values_first_error:
  assumes "k \<in> set ks" and "map_of values k = Some (YMap vd)" and "convert_field env k vd = Inl e0"
  shows "\<exists>k' vd' e. k' \<in> set ks \<and> map_of values k' = Some (YMap vd')
           \<and> convert_field env k' vd' = Inl e \<and> convert_values env values ks acc = Inl e"
  using assms
proof (induction ks arbitrary: acc)
  case Nil then show ?case by simp
next
  case (Cons x ks)
  show ?case
  proof (cases "\<exists>vd' e. map_of values x = Some (YMap vd') \<and> convert_field env x vd' = Inl e")
    case True
    then obtain vd' e where x: "map_of values x = Some (YMap vd')" "convert_field env x vd' = Inl e"
      by blast
    then have "convert_values env values (x # ks) acc = Inl e"
      by (auto simp add: convert_values_step simp del: convert_values.simps)
    with x show ?thesis
      by (intro exI [of _ x] exI [of _ vd'] exI [of _ e]) simp
  next
    case False
    with Cons.prems have k: "k \<in> set ks" by auto
    have "\<exists>acc'. convert_values env values (x # ks) acc = convert_values env values ks acc'"
    proof (cases "map_of values x")
      case None
      then show ?thesis by (auto simp add: convert_values_step simp del: convert_values.simps)
    next
      case (Some y)
      show ?thesis
      proof (cases y)
        case (YMap vd')
        with Some False obtain v where "convert_field env x vd' = Inr v"
          by (cases "convert_field env x vd'") auto
        with Some YMap show ?thesis by (auto simp add: convert_values_step simp del: convert_values.simps)
      qed (use Some in \<open>auto simp add: convert_values_step simp del: convert_values.simps\<close>)
    qed
    then obtain acc' where
      step: "convert_values env values (x # ks) acc = convert_values env values ks acc'"
      by blast
    from Cons.IH [OF k Cons.prems(2,3), of acc']
    obtain k' vd' e where "k' \<in> set ks" "map_of values k' = Some (YMap vd')"
      "convert_field env k' vd' = Inl e" "convert_values env values ks acc' = Inl e"
      by blast
    with step show ?thesis
      by (intro exI [of _ k'] exI [of _ vd'] exI [of _ e]) simp
  qed
qed

lemma convert_field_str_fails:
  assumes "dict_get vd ''value'' (YStr []) = YStr s"
    and "(dict_get vd ''type'' (YStr ''string'') = YStr ''int'' \<and> int_of_str env s = None)
         \<or> (dict_get vd ''type'' (YStr ''string'') = YStr ''float'' \<and> \<not> float_str_ok s)"
  shows "convert_field env k vd
           = Inl (ValueError (error_msg env (YStr s) (dict_get vd ''type'' (YStr ''string'')) k))"
  using assms by (auto simp: convert_field_def Let_def reraise_def py_int_def py_float_def)


lemma run_fs:
  "fst (snd (run env io_ok deferred fs inst self_order select_yaml select_preset input_preset_name))
     = (if (if input_preset_name \<noteq> [] then input_preset_name else select_preset) \<noteq> []
           \<and> select_yaml \<noteq> [] \<and> \<not> deferred
        then snd (ensure_title_exists env io_ok fs select_yaml
                    (if input_preset_name \<noteq> [] then input_preset_name else select_preset))
        else fs)"
  by (simp add: run_def Let_def)

lemma run_inst:
  "snd (snd (run env io_ok deferred fs inst self_order select_yaml select_preset input_preset_name))
     = snd (dynamic_output_types env
              (fst (snd (run env io_ok deferred fs inst self_order select_yaml select_preset
                           input_preset_name)))
              inst select_yaml select_preset input_preset_name)"
  unfolding run_fs by (simp add: run_def Let_def)

lemma run_result:
  "fst (run env io_ok deferred fs inst self_order select_yaml select_preset input_preset_name) =
     (case build_output_values env
             (case self_order of
                None \<Rightarrow> panel_order (snd (snd (run env io_ok deferred fs inst self_order
                                                  select_yaml select_preset input_preset_name)))
              | Some p \<Rightarrow> p)
             (get_values_from_yaml env
                (fst (snd (run env io_ok deferred fs inst self_order select_yaml select_preset
                             input_preset_name)))
                select_yaml
                (if input_preset_name \<noteq> [] then input_preset_name else select_preset)) of
        Inl e \<Rightarrow> Inl e
      | Inr output_values \<Rightarrow>
          Inr (reconcile
                 (fst (fst (dynamic_output_types env
                              (fst (snd (run env io_ok deferred fs inst self_order select_yaml
                                           select_preset input_preset_name)))
                              inst select_yaml select_preset input_preset_name)))
                 output_values))"
  unfolding run_inst run_fs by (simp add: run_def Let_def)

text \<open>
  Claim C6, as amended. When the panel that \<^verbatim>\<open>run\<close> reads has a field whose stored
  string cannot be converted to its declared type (\<open>int\<close> or \<open>float\<close>), \<^verbatim>\<open>run\<close> returns
  no tuple: it raises the error of a field of the panel whose conversion fails, which
  is a ValueError carrying the message built for that field, or the OverflowError of
  an integer too large for a float. For the field itself the message is
  \<open>NS-FlexPreset: Cannot convert '<value>' to <type> for key '<field>'\<close>: it names the
  value, the declared type and the field, and when the field is the only one of the
  panel this is the error raised. The message names neither the document nor the
  preset.
\<close>

theorem conversion_failure_raises:
  assumes "get_values_from_yaml env
             (fst (snd (run env io_ok deferred fs inst self_order select_yaml select_preset
                          input_preset_name)))
             select_yaml (if input_preset_name \<noteq> [] then input_preset_name else select_preset)
           = YMap values"
    and "map_of values key = Some (YMap value_data)"
    and "dict_get value_data ''value'' (YStr []) = YStr s"
    and "(dict_get value_data ''type'' (YStr ''string'') = YStr ''int'' \<and> int_of_str env s = None)
         \<or> (dict_get value_data ''type'' (YStr ''string'') = YStr ''float'' \<and> \<not> float_str_ok s)"
  shows "(\<exists>k vd e. map_of values k = Some (YMap vd) \<and> convert_field env k vd = Inl e
            \<and> fst (run env io_ok deferred fs inst self_order select_yaml select_preset
                      input_preset_name) = Inl e
            \<and> (e = OverflowError
                \<or> e = ValueError (error_msg env (dict_get vd ''value'' (YStr []))
                                    (dict_get vd ''type'' (YStr ''string'')) k)))
       \<and> convert_field env key value_data
           = Inl (ValueError (error_msg env (YStr s)
                                (dict_get value_data ''type'' (YStr ''string'')) key))
       \<and> (values = [(key, YMap value_data)] \<longrightarrow>
            fst (run env io_ok deferred fs inst self_order select_yaml select_preset
                   input_preset_name)
              = Inl (ValueError (error_msg env (YStr s)
                                   (dict_get value_data ''type'' (YStr ''string'')) key)))
       \<and> (\<forall>t. error_msg env (YStr s) (YStr t) key
                 = ''NS-FlexPreset: Cannot convert '' @ [CHR 0x27] @ s @ [CHR 0x27] @ '' to '' @ t
                     @ '' for key '' @ [CHR 0x27] @ key @ [CHR 0x27])"
proof -
  let ?r = "run env io_ok deferred fs inst self_order select_yaml select_preset input_preset_name"
  let ?po = "case self_order of None \<Rightarrow> panel_order (snd (snd ?r)) | Some p \<Rightarrow> p"
  have cf: "convert_field env key value_data
           = Inl (ValueError (error_msg env (YStr s)
                                (dict_get value_data ''type'' (YStr ''string'')) key))"
    by (rule convert_field_str_fails [OF assms(3,4)])
  from assms(2) have ne: "values \<noteq> []" by auto
  from assms(2) have "key \<in> fst ` set values"
    by (metis map_of_eq_None_iff option.distinct(1))
  then have kin: "key \<in> set (run_keys_to_process ?po values)"
    using all_keys_processed by blast
  have res: "fst ?r = (case convert_values env values (run_keys_to_process ?po values) [] of
                         Inl e \<Rightarrow> Inl e
                       | Inr ovs \<Rightarrow> Inr (reconcile (fst (fst (dynamic_output_types env (fst (snd ?r))
                                                     inst select_yaml select_preset input_preset_name))) ovs))"
    by (subst run_result) (simp add: assms(1) build_output_values_def ne)
  from convert_values_first_error [OF kin assms(2) cf, of "[]"]
  obtain k vd e where k: "map_of values k = Some (YMap vd)" "convert_field env k vd = Inl e"
    "convert_values env values (run_keys_to_process ?po values) [] = Inl e"
    by blast
  then have "fst ?r = Inl e"
    by (simp add: res)
  with k convert_field_error [OF k(2)] have first: "\<exists>k vd e. map_of values k = Some (YMap vd)
      \<and> convert_field env k vd = Inl e \<and> fst ?r = Inl e
      \<and> (e = OverflowError
          \<or> e = ValueError (error_msg env (dict_get vd ''value'' (YStr []))
                              (dict_get vd ''type'' (YStr ''string'')) k))"
    by blast
  have single: "fst ?r = Inl (ValueError (error_msg env (YStr s)
                                   (dict_get value_data ''type'' (YStr ''string'')) key))"
    if "values = [(key, YMap value_data)]"
  proof -
    from k(1) that have "k = key" "vd = value_data"
      by (auto split: if_splits)
    with k(2) cf \<open>fst ?r = Inl e\<close> show ?thesis by simp
  qed
  have "\<forall>t. error_msg env (YStr s) (YStr t) key
                 = ''NS-FlexPreset: Cannot convert '' @ [CHR 0x27] @ s @ [CHR 0x27] @ '' to '' @ t
                     @ '' for key '' @ [CHR 0x27] @ key @ [CHR 0x27]"
    by (simp add: error_msg_def py_str_def)
  with first cf single show ?thesis
    by blast
qed

theorem conversion_failure_raises_witness:
  "fst (run (example_env bad_doc) True True [''cfg.yaml'' \<mapsto> ''<doc>''] (example_inst []) None
          ''cfg.yaml'' ''hero'' [])
     = Inl (ValueError (''NS-FlexPreset: Cannot convert '' @ [CHR 0x27] @ ''abc'' @ [CHR 0x27]
                          @ '' to '' @ ''int'' @ '' for key '' @ [CHR 0x27] @ ''w'' @ [CHR 0x27]))"
proof -
  let ?vd = "[(''type'', YStr ''int''), (''value'', YStr ''abc'')]"
  have h1: "get_values_from_yaml (example_env bad_doc)
              (fst (snd (run (example_env bad_doc) True True [''cfg.yaml'' \<mapsto> ''<doc>'']
                           (example_inst []) None ''cfg.yaml'' ''hero'' [])))
              ''cfg.yaml'' (if [] \<noteq> [] then [] else ''hero'')
            = YMap [(''w'', YMap ?vd)]"
    by code_simp
  have h2: "map_of [(''w'', YMap ?vd)] ''w'' = Some (YMap ?vd)"
    by simp
  have h3: "dict_get ?vd ''value'' (YStr []) = YStr ''abc''"
    by (simp add: dict_get_def)
  have ty: "dict_get ?vd ''type'' (YStr ''string'') = YStr ''int''"
    by (simp add: dict_get_def)
  have "int_of_str (example_env bad_doc) ''abc'' = None"
    by code_simp
  with ty have h4: "(dict_get ?vd ''type'' (YStr ''string'') = YStr ''int'' \<and> int_of_str (example_env bad_doc) ''abc'' = None)
      \<or> (dict_get ?vd ''type'' (YStr ''string'') = YStr ''float'' \<and> \<not> float_str_ok ''abc'')"
    by simp
  from conversion_failure_raises [OF h1 h2 h3 h4] show ?thesis
    unfolding ty by simp
qed

text \<open>The claim as stated fails on the message: for the document \<open>cfg.yaml\<close> and the
  preset \<open>hero\<close> the error raised carries a message that holds neither name.\<close>

theorem error_message_counterexample:
  "fst (run (example_env bad_doc) True True [''cfg.yaml'' \<mapsto> ''<doc>''] (example_inst []) None
          ''cfg.yaml'' ''hero'' [])
     = Inl (ValueError (''NS-FlexPreset: Cannot convert '' @ [CHR 0x27] @ ''abc'' @ [CHR 0x27]
                          @ '' to int for key '' @ [CHR 0x27] @ ''w'' @ [CHR 0x27]))
   \<and> \<not> is_infix ''cfg.yaml'' (''NS-FlexPreset: Cannot convert '' @ [CHR 0x27] @ ''abc'' @ [CHR 0x27]
                          @ '' to int for key '' @ [CHR 0x27] @ ''w'' @ [CHR 0x27])
   \<and> \<not> is_infix ''hero'' (''NS-FlexPreset: Cannot convert '' @ [CHR 0x27] @ ''abc'' @ [CHR 0x27]
                          @ '' to int for key '' @ [CHR 0x27] @ ''w'' @ [CHR 0x27])"
  by code_simp

subsection \<open>Adding or updating a value\<close>

lemma dict_set_keys:
  "map fst (dict_set m k v) = (if k \<in> fst ` set m then map fst m else map fst m @ [k])"
proof (induction m)
  case Nil
  then show ?case by simp
next
  case (Cons a m)
  show ?case
  proof (cases "fst a = k")
    case True
    then show ?thesis by (cases a) simp
  next
    case False
    with Cons show ?thesis by (cases a) auto
  qed
qed

lemma dict_set_map_of: "map_of (dict_set m k v) = (map_of m)(k \<mapsto> v)"
  by (induction m) auto

lemma well_formed_cases:
  assumes "well_formed data title"
  obtains "map_of data title = None"
  | preset where "map_of data title = Some (YMap preset)" "map_of preset ''values'' = None"
  | preset vals where "map_of data title = Some (YMap preset)"
      "map_of preset ''values'' = Some (YMap vals)"
proof (cases "map_of data title")
  case None
  then show ?thesis using that(1) by blast
next
  case (Some p)
  with assms obtain preset where p: "p = YMap preset"
    by (cases p) (simp_all add: well_formed_def)
  show ?thesis
  proof (cases "map_of preset ''values''")
    case None
    with Some p show ?thesis using that(2) by blast
  next
    case (Some v)
    with assms \<open>map_of data title = Some p\<close> p obtain vals where "v = YMap vals"
      by (cases v) (simp_all add: well_formed_def)
    with Some \<open>map_of data title = Some p\<close> p show ?thesis using that(3) by blast
  qed
qed

lemma add_value_data_wf:
  assumes "well_formed data title"
  shows "add_value_data env (YMap data) title key_name key_type key_value
           = Some (YMap (dict_set data title
                (YMap (dict_set (preset_of data title) ''values''
                   (YMap (dict_set (panel_of (preset_of data title)) key_name
                      (YMap [(''type'', key_type), (''value'', key_value)])))))))"
  using assms
proof (cases rule: well_formed_cases)
  case 1
  then show ?thesis
    by (simp add: add_value_data_def preset_of_def panel_of_def dict_has_map_of
        dict_get_def to_ordered_dict_def)
next
  case (2 preset)
  then show ?thesis
    by (simp add: add_value_data_def preset_of_def panel_of_def dict_has_map_of
        dict_get_def to_ordered_dict_def)
next
  case (3 preset vals)
  then show ?thesis
    by (simp add: add_value_data_def preset_of_def panel_of_def dict_has_map_of
        dict_get_def to_ordered_dict_def)
qed

text \<open>The update of a document of the data model.\<close>

lemma add_or_update_value_wf:
  assumes "(if path_exists fs yaml_file then load_data env fs yaml_file else Some (YMap []))
             = Some (YMap data)"
    and "well_formed data title"
  shows "(let preset = preset_of data title;
              values = panel_of preset;
              values' = dict_set values key_name (YMap [(''type'', YStr key_type), (''value'', key_value)]);
              r = update_value env io_ok fs inst yaml_file title key_name key_type key_value update_outputs
          in (fst r \<longleftrightarrow> \<not> validate_value_type env key_type key_value)
             \<and> (fst (snd r), fst (snd (snd r)))
                 = add_value env io_ok fs yaml_file title key_name (YStr key_type) key_value
             \<and> add_value env io_ok fs yaml_file title key_name (YStr key_type) key_value
                 = (if io_ok then
                      (True, fs(yaml_file \<mapsto> yaml_emit env
                         (YMap (dict_set data title (YMap (dict_set preset ''values'' (YMap values')))))))
                    else (False, fs))
             \<and> (title \<notin> fst ` set data \<longrightarrow> preset = [(''values'', YMap [])] \<and> values = [])
             \<and> map fst values' = (if key_name \<in> fst ` set values then map fst values
                                   else map fst values @ [key_name])
             \<and> map_of values' = (map_of values)(key_name \<mapsto>
                                    YMap [(''type'', YStr key_type), (''value'', key_value)]))"
proof -
  have nm: "yaml_file \<noteq> []"
    using assms(1) by (auto simp: path_exists_def load_data_def split: if_splits)
  have av: "add_value env io_ok fs yaml_file title key_name (YStr key_type) key_value
      = (if io_ok then
           (True, fs(yaml_file \<mapsto> yaml_emit env
              (YMap (dict_set data title
                (YMap (dict_set (preset_of data title) ''values''
                   (YMap (dict_set (panel_of (preset_of data title)) key_name
                      (YMap [(''type'', YStr key_type), (''value'', key_value)])))))))))
         else (False, fs))"
    using assms(1) nm by (simp add: add_value_def add_value_data_wf [OF assms(2)] save_yaml_def)
  have absent: "preset_of data title = [(''values'', YMap [])] \<and> panel_of (preset_of data title) = []"
    if "title \<notin> fst ` set data"
  proof -
    from that have "map_of data title = None"
      by (simp add: map_of_eq_None_iff)
    then show ?thesis by (simp add: preset_of_def panel_of_def)
  qed
  have uv: "fst (update_value env io_ok fs inst yaml_file title key_name key_type key_value update_outputs)
              \<longleftrightarrow> \<not> validate_value_type env key_type key_value"
    "(fst (snd (update_value env io_ok fs inst yaml_file title key_name key_type key_value update_outputs)),
      fst (snd (snd (update_value env io_ok fs inst yaml_file title key_name key_type key_value update_outputs))))
       = add_value env io_ok fs yaml_file title key_name (YStr key_type) key_value"
    by (simp_all add: update_value_def Let_def)
  from uv av absent show ?thesis
    unfolding Let_def dict_set_keys dict_set_map_of by blast
qed

lemma add_value_unreadable:
  assumes "path_exists fs yaml_file" and "load_data env fs yaml_file = None"
  shows "add_value env io_ok fs yaml_file title key_name key_type key_value = (False, fs)"
  using assms by (simp add: add_value_def)

text \<open>
  Claim C7, as amended. When the document file exists but cannot be read or parsed,
  the update returns failure and writes nothing. When there is no file yet, or the
  file loads to a mapping in which the preset and its panel, where present, are
  mappings: the update creates the preset with an empty panel when it is absent; a
  field that exists is overwritten with the new type and value and the keys of the
  panel stay as they are, so the field keeps its position; a new field goes to the
  end; the handler returns success exactly when the write goes through, and the
  stored document is the same whether or not the value matches the declared type: a
  mismatch only sets the warning.
\<close>

theorem add_or_update_value:
  "(path_exists fs yaml_file \<and> load_data env fs yaml_file = None \<longrightarrow>
      add_value env io_ok fs yaml_file title key_name (YStr key_type) key_value = (False, fs))
   \<and> ((if path_exists fs yaml_file then load_data env fs yaml_file else Some (YMap []))
          = Some (YMap data)
        \<and> well_formed data title \<longrightarrow>
         (let preset = preset_of data title;
                 values = panel_of preset;
                 values' = dict_set values key_name (YMap [(''type'', YStr key_type), (''value'', key_value)]);
                 r = update_value env io_ok fs inst yaml_file title key_name key_type key_value update_outputs
             in (fst r \<longleftrightarrow> \<not> validate_value_type env key_type key_value)
                \<and> (fst (snd r), fst (snd (snd r)))
                    = add_value env io_ok fs yaml_file title key_name (YStr key_type) key_value
                \<and> add_value env io_ok fs yaml_file title key_name (YStr key_type) key_value
                    = (if io_ok then
                         (True, fs(yaml_file \<mapsto> yaml_emit env
                            (YMap (dict_set data title (YMap (dict_set preset ''values'' (YMap values')))))))
                       else (False, fs))
                \<and> (title \<notin> fst ` set data \<longrightarrow> preset = [(''values'', YMap [])] \<and> values = [])
                \<and> map fst values' = (if key_name \<in> fst ` set values then map fst values
                                      else map fst values @ [key_name])
                \<and> map_of values' = (map_of values)(key_name \<mapsto>
                                       YMap [(''type'', YStr key_type), (''value'', key_value)])))"
  using add_value_unreadable add_or_update_value_wf by blast

text \<open>The example: the field b of the example preset is set to the type \<open>int\<close> and
  the value \<open>x1\<close>. The warning is printed, the write succeeds, and b stays between
  a and c.\<close>

theorem add_or_update_value_witness:
  "fst (update_value (example_env example_doc) True [''default.yaml'' \<mapsto> ''<doc>'']
          (example_inst []) ''default.yaml'' ''example'' ''b'' ''int'' (YStr ''x1'') False)
   \<and> add_value (example_env example_doc) True [''default.yaml'' \<mapsto> ''<doc>'']
         ''default.yaml'' ''example'' ''b'' (YStr ''int'') (YStr ''x1'')
       = (True, [''default.yaml'' \<mapsto> ''<doc>'']
            (''default.yaml'' \<mapsto> yaml_emit (example_env example_doc)
               (YMap [(''example'', YMap [(''values'', YMap
                  [(''a'', YMap [(''type'', YStr ''int''), (''value'', YStr ''7'')]),
                   (''b'', YMap [(''type'', YStr ''int''), (''value'', YStr ''x1'')]),
                   (''c'', YMap [(''type'', YStr ''string''), (''value'', YStr ''hi'')])])])])))
   \<and> add_value (example_env example_doc) True [''broken.yaml'' \<mapsto> ''{{garbage'']
         ''broken.yaml'' ''example'' ''b'' (YStr ''int'') (YStr ''x1'')
       = (False, [''broken.yaml'' \<mapsto> ''{{garbage''])"
proof -
  let ?env = "example_env example_doc"
  let ?fs = "[''default.yaml'' \<mapsto> ''<doc>'']"
  let ?bad = "[''broken.yaml'' \<mapsto> ''{{garbage'']"
  let ?data = "[(''example'', YMap [(''values'', YMap example_panel)])]"
  have h1: "(if path_exists ?fs ''default.yaml'' then load_data ?env ?fs ''default.yaml''
             else Some (YMap [])) = Some (YMap ?data)"
    by (simp add: path_exists_def load_data_def example_env_def example_doc_def or_empty_def)
  have h2: "well_formed ?data ''example''"
    by (simp add: well_formed_def)
  have h3: "path_exists ?bad ''broken.yaml'' \<and> load_data ?env ?bad ''broken.yaml'' = None"
    by (simp add: path_exists_def load_data_def example_env_def placeholder_text_def)
  have v: "\<not> validate_value_type ?env ''int'' (YStr ''x1'')"
    by code_simp
  have p: "preset_of ?data ''example'' = [(''values'', YMap example_panel)]"
    "panel_of [(''values'', YMap example_panel)] = example_panel"
    by (simp_all add: preset_of_def panel_of_def)
  have d: "dict_set ?data ''example'' x = [(''example'', x)]"
    "dict_set [(''values'', YMap example_panel)] ''values'' y = [(''values'', y)]" for x y
    by simp_all
  have s: "dict_set example_panel ''b'' (YMap [(''type'', YStr ''int''), (''value'', YStr ''x1'')])
             = [(''a'', YMap [(''type'', YStr ''int''), (''value'', YStr ''7'')]),
                (''b'', YMap [(''type'', YStr ''int''), (''value'', YStr ''x1'')]),
                (''c'', YMap [(''type'', YStr ''string''), (''value'', YStr ''hi'')])]"
    by (simp add: example_panel_def)
  from add_or_update_value [of ?fs "''default.yaml''" ?env True "''example''" "''b''" "''int''"
      "YStr ''x1''" ?data "example_inst []" False] h1 h2 v
  have ok: "fst (update_value ?env True ?fs (example_inst []) ''default.yaml'' ''example'' ''b''
                   ''int'' (YStr ''x1'') False)
            \<and> add_value ?env True ?fs ''default.yaml'' ''example'' ''b'' (YStr ''int'') (YStr ''x1'')
                = (True, ?fs(''default.yaml'' \<mapsto> yaml_emit ?env
                     (YMap [(''example'', YMap [(''values'', YMap
                  [(''a'', YMap [(''type'', YStr ''int''), (''value'', YStr ''7'')]),
                   (''b'', YMap [(''type'', YStr ''int''), (''value'', YStr ''x1'')]),
                   (''c'', YMap [(''type'', YStr ''string''), (''value'', YStr ''hi'')])])])])))"
    unfolding Let_def p d s by simp
  from add_or_update_value [of ?bad "''broken.yaml''" ?env True "''example''" "''b''" "''int''"
      "YStr ''x1''" "[]" "example_inst []" False] h3
  have "add_value ?env True ?bad ''broken.yaml'' ''example'' ''b'' (YStr ''int'') (YStr ''x1'')
          = (False, ?bad)"
    by blast
  with ok show ?thesis
    by blast
qed

text \<open>The claim as stated fails: with a write that would succeed, the update of a
  file that does not parse is refused, the handler reports failure, and the file is
  left as it is.\<close>

theorem add_value_parse_failure_counterexample:
  "fst (snd (update_value (example_env example_doc) True [''broken.yaml'' \<mapsto> ''{{garbage'']
               (example_inst []) ''broken.yaml'' ''example'' ''b'' ''int'' (YStr ''1'') True))
     = False
   \<and> fst (snd (snd (update_value (example_env example_doc) True [''broken.yaml'' \<mapsto> ''{{garbage'']
               (example_inst []) ''broken.yaml'' ''example'' ''b'' ''int'' (YStr ''1'') True)))
         ''broken.yaml'' = Some ''{{garbage''"
  by code_simp

subsection \<open>Order of the keys through a save\<close>







subsection \<open>Validation and conversion\<close>

lemma nil_in_conc: "[] \<in> conc A B \<longleftrightarrow> [] \<in> A \<and> [] \<in> B"
  by (auto simp: conc_def)

lemma cons_in_conc:
  "c # s \<in> conc A B \<longleftrightarrow>
     ([] \<in> A \<and> c # s \<in> B) \<or> (\<exists>u v. s = u @ v \<and> c # u \<in> A \<and> v \<in> B)"
proof
  assume "c # s \<in> conc A B"
  then obtain u v where uv: "c # s = u @ v" "u \<in> A" "v \<in> B"
    by (auto simp: conc_def)
  show "([] \<in> A \<and> c # s \<in> B) \<or> (\<exists>u v. s = u @ v \<and> c # u \<in> A \<and> v \<in> B)"
  proof (cases u)
    case Nil
    with uv show ?thesis by simp
  next
    case (Cons a u')
    with uv show ?thesis by auto
  qed
next
  assume "([] \<in> A \<and> c # s \<in> B) \<or> (\<exists>u v. s = u @ v \<and> c # u \<in> A \<and> v \<in> B)"
  then show "c # s \<in> conc A B"
  proof
    assume "[] \<in> A \<and> c # s \<in> B"
    then have "[] @ (c # s) \<in> conc A B"
      unfolding conc_def by blast
    then show ?thesis by simp
  next
    assume "\<exists>u v. s = u @ v \<and> c # u \<in> A \<and> v \<in> B"
    then obtain u v where "s = u @ v" "c # u \<in> A" "v \<in> B" by blast
    then have "(c # u) @ v \<in> conc A B"
      unfolding conc_def by blast
    with \<open>s = u @ v\<close> show ?thesis by simp
  qed
qed

lemma star_nonempty_split:
  "w \<in> star A \<Longrightarrow> w \<noteq> [] \<Longrightarrow> \<exists>u v. w = u @ v \<and> u \<noteq> [] \<and> u \<in> A \<and> v \<in> star A"
proof (induction rule: star.induct)
  case star_nil
  then show ?case by simp
next
  case (star_app u v)
  show ?case
  proof (cases "u = []")
    case True
    with star_app show ?thesis by simp
  next
    case False
    with star_app.hyps show ?thesis by blast
  qed
qed

lemma cons_in_star:
  "c # s \<in> star A \<longleftrightarrow> (\<exists>u v. s = u @ v \<and> c # u \<in> A \<and> v \<in> star A)"
proof
  assume "c # s \<in> star A"
  from star_nonempty_split [OF this] obtain u v where
    uv: "c # s = u @ v" "u \<noteq> []" "u \<in> A" "v \<in> star A"
    by blast
  then obtain u' where "u = c # u'"
    by (cases u) auto
  with uv show "\<exists>u v. s = u @ v \<and> c # u \<in> A \<and> v \<in> star A"
    by auto
next
  assume "\<exists>u v. s = u @ v \<and> c # u \<in> A \<and> v \<in> star A"
  then obtain u v where "s = u @ v" "c # u \<in> A" "v \<in> star A" by blast
  then have "(c # u) @ v \<in> star A"
    by (intro star_app)
  with \<open>s = u @ v\<close> show "c # s \<in> star A" by simp
qed

lemma nullable_lang: "nullable r \<longleftrightarrow> [] \<in> lang r"
  by (induction r) (auto simp: nil_in_conc star_nil)

lemma in_conc: "w \<in> conc A B \<longleftrightarrow> (\<exists>u v. w = u @ v \<and> u \<in> A \<and> v \<in> B)"
  by (auto simp: conc_def)

lemma deriv_lang: "s \<in> lang (deriv c r) \<longleftrightarrow> c # s \<in> lang r"
proof (induction r arbitrary: s)
  case (Seq r1 r2)
  have A: "s \<in> conc (lang (deriv c r1)) (lang r2)
             \<longleftrightarrow> (\<exists>u v. s = u @ v \<and> c # u \<in> lang r1 \<and> v \<in> lang r2)"
    by (simp add: in_conc Seq.IH(1))
  show ?case
    using A by (auto simp: cons_in_conc nullable_lang Seq.IH(2))
next
  case (Star r)
  have "s \<in> conc (lang (deriv c r)) (star (lang r))
          \<longleftrightarrow> (\<exists>u v. s = u @ v \<and> c # u \<in> lang r \<and> v \<in> star (lang r))"
    by (simp add: in_conc Star.IH)
  then show ?case
    by (simp add: cons_in_star)
next
  case (Plus r)
  have A: "s \<in> conc (lang (deriv c r)) (star (lang r))
          \<longleftrightarrow> (\<exists>u v. s = u @ v \<and> c # u \<in> lang r \<and> v \<in> star (lang r))"
    by (simp add: in_conc Plus.IH)
  show ?case
    using A by (auto simp: cons_in_conc cons_in_star)
qed auto

lemma rx_match_lang: "rx_match r s \<longleftrightarrow> s \<in> lang r"
  by (induction s arbitrary: r) (simp_all add: nullable_lang deriv_lang)


lemma digit_codes:
  "char_of (48::nat) = CHR ''0''" "char_of (49::nat) = CHR ''1''" "char_of (50::nat) = CHR ''2''"
  "char_of (51::nat) = CHR ''3''" "char_of (52::nat) = CHR ''4''" "char_of (53::nat) = CHR ''5''"
  "char_of (54::nat) = CHR ''6''" "char_of (55::nat) = CHR ''7''" "char_of (56::nat) = CHR ''8''"
  "char_of (57::nat) = CHR ''9''"
  by code_simp+

lemma in_range_digit:
  assumes "in_range CHR ''0'' CHR ''9'' c"
  shows "is_digit c"
proof -
  define n :: nat where "n = of_char c"
  from assms have "48 \<le> n" "n \<le> 57"
    by (simp_all add: in_range_def n_def)
  then have "n = 48 \<or> n = 49 \<or> n = 50 \<or> n = 51 \<or> n = 52 \<or> n = 53 \<or> n = 54 \<or> n = 55
             \<or> n = 56 \<or> n = 57"
    by arith
  moreover have "c = char_of n"
    by (simp add: n_def)
  ultimately show ?thesis
    using digit_codes by (auto simp: is_digit_def)
qed

lemma digit_not_special:
  "is_digit c \<Longrightarrow> \<not> is_space c \<and> c \<noteq> CHR ''+'' \<and> c \<noteq> CHR ''-'' \<and> c \<noteq> CHR ''.'' \<and> c \<noteq> CHR ''_'' \<and> c \<noteq> CHR 0x0A"
  by (auto simp: is_digit_def is_space_def)

lemma star_digits: "s \<in> star (lang digit_rx) \<Longrightarrow> list_all is_digit s"
  by (induction rule: star.induct) (auto simp: digit_rx_def in_range_digit)

lemma plus_digits:
  assumes "s \<in> lang (Plus digit_rx)"
  shows "s \<noteq> [] \<and> list_all is_digit s"
proof -
  from assms obtain u v where "s = u @ v" "u \<in> lang digit_rx" "v \<in> star (lang digit_rx)"
    by (auto simp: in_conc)
  then show ?thesis
    using star_digits [of v] by (auto simp: digit_rx_def in_range_digit)
qed


lemma lang_SeqD: "s \<in> lang (Seq r1 r2) \<Longrightarrow> \<exists>u v. s = u @ v \<and> u \<in> lang r1 \<and> v \<in> lang r2"
  by (simp add: in_conc)

lemma lang_Opt_ChrD: "s \<in> lang (Opt (Chr c)) \<Longrightarrow> s = [] \<or> s = [c]"
  by simp

lemma lang_StarD: "s \<in> lang (Star r) \<Longrightarrow> s \<in> star (lang r)"
  by simp

lemma int_lang_shape:
  assumes "s \<in> lang (Seq (Opt (Chr CHR ''-'')) (Plus digit_rx))"
  shows "\<exists>sg ds. s = sg @ ds \<and> (sg = [] \<or> sg = ''-'') \<and> ds \<noteq> [] \<and> list_all is_digit ds"
proof -
  from lang_SeqD [OF assms] obtain sg ds where
    "s = sg @ ds" "sg \<in> lang (Opt (Chr CHR ''-''))" "ds \<in> lang (Plus digit_rx)"
    by blast
  with plus_digits [of ds] lang_Opt_ChrD [of sg] show ?thesis by blast
qed

lemma float_lang_shape:
  assumes "s \<in> lang (Seq (Opt (Chr CHR ''-''))
                     (Seq (Star digit_rx) (Seq (Opt (Chr CHR ''.'')) (Plus digit_rx))))"
  shows "\<exists>sg ds1 dot ds2. s = sg @ ds1 @ dot @ ds2 \<and> (sg = [] \<or> sg = ''-'')
           \<and> list_all is_digit ds1 \<and> (dot = [] \<or> dot = ''.'')
           \<and> ds2 \<noteq> [] \<and> list_all is_digit ds2"
proof -
  from lang_SeqD [OF assms] obtain sg t where 1: "s = sg @ t" "sg \<in> lang (Opt (Chr CHR ''-''))"
    "t \<in> lang (Seq (Star digit_rx) (Seq (Opt (Chr CHR ''.'')) (Plus digit_rx)))"
    by blast
  from lang_SeqD [OF 1(3)] obtain ds1 t' where 2: "t = ds1 @ t'" "ds1 \<in> lang (Star digit_rx)"
    "t' \<in> lang (Seq (Opt (Chr CHR ''.'')) (Plus digit_rx))"
    by blast
  from lang_SeqD [OF 2(3)] obtain dot ds2 where 3: "t' = dot @ ds2"
    "dot \<in> lang (Opt (Chr CHR ''.''))" "ds2 \<in> lang (Plus digit_rx)"
    by blast
  from 1(1) 2(1) 3(1) lang_Opt_ChrD [OF 1(2)] lang_Opt_ChrD [OF 3(2)]
    star_digits [OF lang_StarD [OF 2(2)]] plus_digits [OF 3(3)]
  show ?thesis
    by blast
qed

lemma lang_SeqI: "u \<in> lang r1 \<Longrightarrow> v \<in> lang r2 \<Longrightarrow> u @ v \<in> lang (Seq r1 r2)"
  by (auto simp: in_conc)

lemma int_in_float:
  assumes "s \<in> lang (Seq (Opt (Chr CHR ''-'')) (Plus digit_rx))"
  shows "s \<in> lang (Seq (Opt (Chr CHR ''-''))
                     (Seq (Star digit_rx) (Seq (Opt (Chr CHR ''.'')) (Plus digit_rx))))"
proof -
  from lang_SeqD [OF assms] obtain sg ds where s: "s = sg @ ds" "sg \<in> lang (Opt (Chr CHR ''-''))"
    "ds \<in> lang (Plus digit_rx)"
    by blast
  have "[] \<in> lang (Opt (Chr CHR ''.''))" "[] \<in> lang (Star digit_rx)"
    by (simp_all add: star_nil)
  with s(3) have "[] @ [] @ ds \<in> lang (Seq (Star digit_rx) (Seq (Opt (Chr CHR ''.'')) (Plus digit_rx)))"
    by (intro lang_SeqI)
  with s(1,2) show ?thesis
    using lang_SeqI by fastforce
qed

lemma skip_digits_Cons: "is_digit c \<Longrightarrow> skip_digits (c # cs) = skip_digits cs"
  by (cases cs) simp_all

lemma skip_digits_all: "list_all is_digit ds \<Longrightarrow> skip_digits (ds @ r) = skip_digits r"
  by (induction ds) (simp_all add: skip_digits_Cons)

lemma skip_digits_dot: "skip_digits (CHR ''.'' # r) = CHR ''.'' # r"
  by (cases r) (simp_all add: is_digit_def)

lemma digit_part_digits:
  "ds \<noteq> [] \<Longrightarrow> list_all is_digit ds \<Longrightarrow> digit_part (ds @ r) = Some (skip_digits r)"
  by (cases ds) (simp_all add: digit_part_def skip_digits_all)

lemma strip_clean:
  assumes "s \<noteq> []" and "\<not> is_space (hd s)" and "\<not> is_space (last s)"
  shows "strip s = s" and "strip (s @ [CHR 0x0A]) = s"
proof -
  from assms(1,2) have d1: "dropWhile is_space s = s" "dropWhile is_space (s @ [CHR 0x0A]) = s @ [CHR 0x0A]"
    by (cases s; simp)+
  from assms(1,3) have d2: "dropWhile is_space (rev s) = rev s"
    by (cases s rule: rev_cases) simp_all
  have nl: "is_space (CHR 0x0A)"
    by (simp add: is_space_def)
  show "strip s = s"
    by (simp add: strip_def d1 d2)
  show "strip (s @ [CHR 0x0A]) = s"
    by (simp add: strip_def d1 d2 nl)
qed


lemma signed_digits_clean:
  assumes "sg = [] \<or> sg = ''-''" and "t \<noteq> []" and "is_digit (hd t) \<or> hd t = CHR ''.''"
    and "is_digit (last t)"
  shows "strip (sg @ t) = sg @ t" and "strip ((sg @ t) @ [CHR 0x0A]) = sg @ t"
    and "drop_sign (sg @ t) = t"
proof -
  have dot: "\<not> is_space CHR ''.''" "\<not> is_space CHR ''-''"
    by (simp_all add: is_space_def)
  from assms have ne: "sg @ t \<noteq> []" by simp
  from assms dot have h: "\<not> is_space (hd (sg @ t))"
    by (cases t) (auto simp: digit_not_special)
  from assms have l: "\<not> is_space (last (sg @ t))"
    by (simp add: digit_not_special)
  show "strip (sg @ t) = sg @ t" "strip ((sg @ t) @ [CHR 0x0A]) = sg @ t"
    using strip_clean [OF ne h l] by simp_all
  from assms(2,3) obtain c cs where t: "t = c # cs" "c \<noteq> CHR ''+''" "c \<noteq> CHR ''-''"
    by (cases t) (auto simp: digit_not_special)
  with assms(1) show "drop_sign (sg @ t) = t"
    by (auto simp: drop_sign_def)
qed

lemma filter_digits: "list_all is_digit ds \<Longrightarrow> filter is_digit ds = ds"
  by (simp add: list_all_iff)

lemma int_of_str_digits:
  assumes "sg = [] \<or> sg = ''-''" and "ds \<noteq> []" and "list_all is_digit ds"
  shows "int_of_str env (sg @ ds) \<noteq> None
           \<longleftrightarrow> int_max_str_digits env = 0 \<or> length ds \<le> int_max_str_digits env"
    and "int_of_str env ((sg @ ds) @ [CHR 0x0A]) \<noteq> None
           \<longleftrightarrow> int_max_str_digits env = 0 \<or> length ds \<le> int_max_str_digits env"
proof -
  from assms(2,3) have hl: "is_digit (hd ds) \<or> hd ds = CHR ''.''" "is_digit (last ds)"
    by (cases ds; simp add: list_all_iff)+
  have dp: "digit_part ds = Some []"
    using digit_part_digits [OF assms(2,3), of "[]"] by simp
  show "int_of_str env (sg @ ds) \<noteq> None
           \<longleftrightarrow> int_max_str_digits env = 0 \<or> length ds \<le> int_max_str_digits env"
    "int_of_str env ((sg @ ds) @ [CHR 0x0A]) \<noteq> None
           \<longleftrightarrow> int_max_str_digits env = 0 \<or> length ds \<le> int_max_str_digits env"
    using signed_digits_clean [OF assms(1,2) hl] dp filter_digits [OF assms(3)]
    by (simp_all add: int_of_str_def Let_def)
qed

lemma count_signed_digits:
  assumes "sg = [] \<or> sg = ''-''" and "list_all is_digit ds"
  shows "filter is_digit (sg @ ds) = ds" and "filter is_digit ((sg @ ds) @ [CHR 0x0A]) = ds"
  using assms filter_digits [OF assms(2)] by (auto simp: is_digit_def)

lemma after_number_ok:
  assumes "list_all is_digit ds1" and "dot = [] \<or> dot = ''.''" and "ds2 \<noteq> []"
    and "list_all is_digit ds2"
  shows "after_number (ds1 @ dot @ ds2) = Some []"
proof -
  have dp2: "digit_part ds2 = Some []"
    using digit_part_digits [OF assms(3,4), of "[]"] by simp
  have sk2: "skip_digits ds2 = []"
    using skip_digits_all [OF assms(4), of "[]"] by simp
  show ?thesis
  proof (cases "ds1 = []")
    case True
    with assms(2) dp2 show ?thesis
      by (auto simp: after_number_def digit_part_def is_digit_def)
  next
    case False
    from assms(2) show ?thesis
    proof
      assume "dot = []"
      then show ?thesis
        using digit_part_digits [OF False assms(1), of ds2] sk2
        by (simp add: after_number_def)
    next
      assume "dot = ''.''"
      then show ?thesis
        using digit_part_digits [OF False assms(1), of "CHR ''.'' # ds2"] dp2
        by (simp add: after_number_def skip_digits_dot frac_opt_def)
    qed
  qed
qed

lemma float_str_digits:
  assumes "sg = [] \<or> sg = ''-''" and "list_all is_digit ds1" and "dot = [] \<or> dot = ''.''"
    and "ds2 \<noteq> []" and "list_all is_digit ds2"
  shows "float_str_ok (sg @ ds1 @ dot @ ds2)"
    and "float_str_ok ((sg @ ds1 @ dot @ ds2) @ [CHR 0x0A])"
    and "strip (sg @ ds1 @ dot @ ds2) = sg @ ds1 @ dot @ ds2"
proof -
  let ?t = "ds1 @ dot @ ds2"
  have ne: "?t \<noteq> []" using assms(4) by simp
  have h: "is_digit (hd ?t) \<or> hd ?t = CHR ''.''"
    using assms(2-5) by (cases ds1; cases ds2; auto)
  have l: "is_digit (last ?t)"
    using assms(4,5) by (cases ds2 rule: rev_cases) simp_all
  note c = signed_digits_clean [OF assms(1) ne h l]
  have an: "after_number ?t = Some []"
    by (rule after_number_ok [OF assms(2-5)])
  show "float_str_ok (sg @ ?t)" "float_str_ok ((sg @ ?t) @ [CHR 0x0A])"
    using c an by (simp_all add: float_str_ok_def Let_def after_exponent_def)
  show "strip (sg @ ?t) = sg @ ?t"
    by (rule c(1))
qed


lemma re_match_dollar:
  assumes "re_match (r, True) s"
  shows "\<exists>b. b \<in> lang r \<and> (s = b \<or> s = b @ [CHR 0x0A])"
proof -
  from assms have "s \<in> lang r \<or> (s \<noteq> [] \<and> last s = CHR 0x0A \<and> butlast s \<in> lang r)"
    by (simp add: re_match_def rx_match_lang)
  then show ?thesis
  proof
    assume "s \<in> lang r"
    then show ?thesis by blast
  next
    assume "s \<noteq> [] \<and> last s = CHR 0x0A \<and> butlast s \<in> lang r"
    then have "butlast s \<in> lang r" "s = butlast s @ [CHR 0x0A]"
      using append_butlast_last_id [of s] by simp_all
    then show ?thesis by blast
  qed
qed

lemma validate_int:
  "validate_value_type env ''int'' (YStr s)
     = re_match (Seq (Opt (Chr CHR ''-'')) (Plus digit_rx), True) s"
  by (simp add: validate_value_type_def TYPE_REGEX_def py_str_def)

lemma validate_float:
  "validate_value_type env ''float'' (YStr s)
     = re_match (Seq (Opt (Chr CHR ''-''))
                   (Seq (Star digit_rx) (Seq (Opt (Chr CHR ''.'')) (Plus digit_rx))), True) s"
  by (simp add: validate_value_type_def TYPE_REGEX_def py_str_def)

lemma int_match_shape:
  assumes "validate_value_type env ''int'' (YStr s)"
  obtains b sg ds where "s = b \<or> s = b @ [CHR 0x0A]" "b = sg @ ds" "sg = [] \<or> sg = ''-''"
    "ds \<noteq> []" "list_all is_digit ds" "b \<in> lang (Seq (Opt (Chr CHR ''-'')) (Plus digit_rx))"
proof -
  from assms obtain b where b: "b \<in> lang (Seq (Opt (Chr CHR ''-'')) (Plus digit_rx))"
    "s = b \<or> s = b @ [CHR 0x0A]"
    unfolding validate_int using re_match_dollar by blast
  from int_lang_shape [OF b(1)] obtain sg ds where
    "b = sg @ ds" "sg = [] \<or> sg = ''-''" "ds \<noteq> []" "list_all is_digit ds"
    by blast
  with b that show ?thesis by blast
qed

lemma int_match_converts:
  assumes "validate_value_type env ''int'' (YStr s)"
  shows "int_of_str env s \<noteq> None
           \<longleftrightarrow> int_max_str_digits env = 0
               \<or> length (filter is_digit s) \<le> int_max_str_digits env"
    and "validate_value_type env ''float'' (YStr s)"
proof -
  from assms obtain b sg ds where sd: "s = b \<or> s = b @ [CHR 0x0A]" "b = sg @ ds"
    "sg = [] \<or> sg = ''-''" "ds \<noteq> []" "list_all is_digit ds"
    "b \<in> lang (Seq (Opt (Chr CHR ''-'')) (Plus digit_rx))"
    by (rule int_match_shape)
  from sd(1) show "int_of_str env s \<noteq> None
           \<longleftrightarrow> int_max_str_digits env = 0
               \<or> length (filter is_digit s) \<le> int_max_str_digits env"
  proof
    assume "s = b"
    then show ?thesis
      using int_of_str_digits(1) [OF sd(3-5)] count_signed_digits(1) [OF sd(3,5)] sd(2) by simp
  next
    assume "s = b @ [CHR 0x0A]"
    then show ?thesis
      using int_of_str_digits(2) [OF sd(3-5)] count_signed_digits(2) [OF sd(3,5)] sd(2) by simp
  qed
  have fb: "rx_match (Seq (Opt (Chr CHR ''-''))
                   (Seq (Star digit_rx) (Seq (Opt (Chr CHR ''.'')) (Plus digit_rx)))) b"
    using int_in_float [OF sd(6)] by (simp only: rx_match_lang)
  from sd(1) show "validate_value_type env ''float'' (YStr s)"
    unfolding validate_float
  proof
    assume "s = b"
    with fb show "re_match (Seq (Opt (Chr CHR ''-''))
                   (Seq (Star digit_rx) (Seq (Opt (Chr CHR ''.'')) (Plus digit_rx))), True) s"
      by (simp add: re_match_def)
  next
    assume "s = b @ [CHR 0x0A]"
    with fb show "re_match (Seq (Opt (Chr CHR ''-''))
                   (Seq (Star digit_rx) (Seq (Opt (Chr CHR ''.'')) (Plus digit_rx))), True) s"
      by (simp add: re_match_def)
  qed
qed

lemma float_match_converts:
  assumes "validate_value_type env ''float'' (YStr s)"
  shows "float_str_ok s"
proof -
  from assms obtain b where b: "b \<in> lang (Seq (Opt (Chr CHR ''-''))
                   (Seq (Star digit_rx) (Seq (Opt (Chr CHR ''.'')) (Plus digit_rx))))"
    "s = b \<or> s = b @ [CHR 0x0A]"
    unfolding validate_float using re_match_dollar by blast
  from float_lang_shape [OF b(1)] obtain sg ds1 dot ds2 where
    "b = sg @ ds1 @ dot @ ds2" "sg = [] \<or> sg = ''-''" "list_all is_digit ds1"
    "dot = [] \<or> dot = ''.''" "ds2 \<noteq> []" "list_all is_digit ds2"
    by blast
  with b(2) float_str_digits(1,2) [of sg ds1 dot ds2] show ?thesis
    by auto
qed

lemma digit_in_range: "is_digit c \<Longrightarrow> in_range CHR ''0'' CHR ''9'' c"
  by (auto simp: is_digit_def in_range_def)

lemma digits_in_star: "list_all is_digit ds \<Longrightarrow> ds \<in> star (lang digit_rx)"
proof (induction ds)
  case Nil
  then show ?case by (simp add: star_nil)
next
  case (Cons c cs)
  then have "[c] \<in> lang digit_rx" "cs \<in> star (lang digit_rx)"
    by (simp_all add: digit_rx_def digit_in_range)
  then have "[c] @ cs \<in> star (lang digit_rx)"
    by (rule star_app)
  then show ?case by simp
qed

lemma digits_match_int:
  assumes "ds \<noteq> []" and "list_all is_digit ds"
  shows "validate_value_type env ''int'' (YStr ds)"
proof -
  from assms obtain c cs where ds: "ds = c # cs" "is_digit c" "list_all is_digit cs"
    by (cases ds) auto
  then have "[c] \<in> lang digit_rx"
    by (simp add: digit_rx_def digit_in_range)
  moreover from ds(3) have "cs \<in> star (lang digit_rx)"
    by (rule digits_in_star)
  ultimately have "[c] @ cs \<in> lang (Plus digit_rx)"
    unfolding lang.simps in_conc by (intro exI [of _ "[c]"] exI [of _ cs]) simp
  moreover have "[] \<in> lang (Opt (Chr CHR ''-''))"
    by simp
  ultimately have "[] @ [c] @ cs \<in> lang (Seq (Opt (Chr CHR ''-'')) (Plus digit_rx))"
    by (intro lang_SeqI)
  then have "rx_match (Seq (Opt (Chr CHR ''-'')) (Plus digit_rx)) ds"
    by (simp add: ds rx_match_lang del: lang.simps)
  then show ?thesis
    by (simp add: validate_int re_match_def)
qed

text \<open>
  Claim C9, as amended. A string that the \<open>int\<close> pattern of \<^verbatim>\<open>TYPE_REGEX\<close> matches is
  matched by the \<open>float\<close> pattern as well, and \<^verbatim>\<open>int()\<close> accepts it when the number of
  its digits is within the interpreter's limit on integer strings (4300 unless
  configured) or the limit is off; a string that the \<open>float\<close> pattern matches is
  accepted by \<^verbatim>\<open>float()\<close>. So a field that holds a string which passed the validation
  for its declared numeric type is converted by \<^verbatim>\<open>run\<close> without an error, except an
  \<open>int\<close> field with more digits than the limit, for which \<^verbatim>\<open>run\<close> raises the
  conversion error.
\<close>

theorem validated_value_converts:
  "(validate_value_type env ''int'' (YStr s) \<longrightarrow>
      validate_value_type env ''float'' (YStr s)
      \<and> (if int_max_str_digits env = 0
             \<or> length (filter is_digit s) \<le> int_max_str_digits env
          then \<exists>i. int_of_str env s = Some i
                 \<and> convert_field env key [(''type'', YStr ''int''), (''value'', YStr s)]
                     = Inr (PInt i)
          else convert_field env key [(''type'', YStr ''int''), (''value'', YStr s)]
                 = Inl (ValueError (error_msg env (YStr s) (YStr ''int'') key))))
   \<and> (validate_value_type env ''float'' (YStr s) \<longrightarrow>
      float_str_ok s
      \<and> convert_field env key [(''type'', YStr ''float''), (''value'', YStr s)]
          = Inr (PFloat (FloatOfStr (strip s))))"
proof -
  have "\<exists>i. int_of_str env s = Some i
          \<and> convert_field env key [(''type'', YStr ''int''), (''value'', YStr s)] = Inr (PInt i)"
    if "validate_value_type env ''int'' (YStr s)"
      "int_max_str_digits env = 0 \<or> length (filter is_digit s) \<le> int_max_str_digits env"
    using int_match_converts(1) [OF that(1)] that(2)
    by (auto simp: convert_field_def dict_get_def py_int_def)
  moreover have "convert_field env key [(''type'', YStr ''int''), (''value'', YStr s)]
                 = Inl (ValueError (error_msg env (YStr s) (YStr ''int'') key))"
    if "validate_value_type env ''int'' (YStr s)"
      "\<not> (int_max_str_digits env = 0 \<or> length (filter is_digit s) \<le> int_max_str_digits env)"
  proof -
    from int_match_converts(1) [OF that(1)] that(2) have "int_of_str env s = None"
      by blast
    then show ?thesis
      by (simp add: convert_field_def dict_get_def py_int_def reraise_def)
  qed
  moreover have "convert_field env key [(''type'', YStr ''float''), (''value'', YStr s)]
          = Inr (PFloat (FloatOfStr (strip s)))"
    if "validate_value_type env ''float'' (YStr s)"
    using float_match_converts [OF that]
    by (simp add: convert_field_def dict_get_def py_float_def)
  ultimately show ?thesis
    using int_match_converts(2) float_match_converts by (auto split: if_splits)
qed

theorem validated_value_converts_witness:
  "validate_value_type (example_env example_doc) ''int'' (YStr ''-42'')
   \<and> convert_field (example_env example_doc) ''k'' [(''type'', YStr ''int''), (''value'', YStr ''-42'')]
       = Inr (PInt (- 42))
   \<and> validate_value_type (example_env example_doc) ''float'' (YStr ''-42'')
   \<and> validate_value_type (example_env example_doc) ''float'' (YStr ''-.5'')
   \<and> float_str_ok ''-.5''"
proof -
  have h1: "validate_value_type (example_env example_doc) ''int'' (YStr ''-42'')"
    by code_simp
  have h2: "validate_value_type (example_env example_doc) ''float'' (YStr ''-.5'')"
    by code_simp
  have i: "int_of_str (example_env example_doc) ''-42'' = Some (- 42)"
    by code_simp
  have l: "int_max_str_digits (example_env example_doc) = 0
           \<or> length (filter is_digit ''-42'') \<le> int_max_str_digits (example_env example_doc)"
    by code_simp
  from validated_value_converts [of "example_env example_doc" "''-42''" "''k''"]
    validated_value_converts [of "example_env example_doc" "''-.5''" "''k''"] h1 h2 i l
  show ?thesis
    by auto
qed

text \<open>The claim as stated fails at the interpreter's default limit: the string of 4301
  digits 1 is matched by the \<open>int\<close> pattern, \<^verbatim>\<open>int()\<close> raises on it, and \<^verbatim>\<open>run\<close> raises
  the conversion error for a field that holds it.\<close>

theorem long_integer_counterexample:
  "validate_value_type (example_env example_doc) ''int'' (YStr (replicate 4301 CHR ''1''))
   \<and> int_of_str (example_env example_doc) (replicate 4301 CHR ''1'') = None
   \<and> convert_field (example_env example_doc) ''k''
         [(''type'', YStr ''int''), (''value'', YStr (replicate 4301 CHR ''1''))]
       = Inl (ValueError (error_msg (example_env example_doc) (YStr (replicate 4301 CHR ''1''))
                            (YStr ''int'') ''k''))"
proof -
  let ?ds = "replicate 4301 CHR ''1''"
  have ne: "?ds \<noteq> []"
    by simp
  have dg: "list_all is_digit ?ds"
    by (simp add: list_all_iff is_digit_def)
  have lim: "int_max_str_digits (example_env example_doc) = 4300"
    by (simp add: example_env_def)
  have v: "validate_value_type (example_env example_doc) ''int'' (YStr ?ds)"
    by (rule digits_match_int [OF ne dg])
  have "\<not> int_of_str (example_env example_doc) ([] @ ?ds) \<noteq> None"
    unfolding int_of_str_digits(1) [OF disjI1 [OF refl] ne dg] lim by simp
  then have n: "int_of_str (example_env example_doc) ?ds = None"
    by simp
  then have "convert_field (example_env example_doc) ''k''
         [(''type'', YStr ''int''), (''value'', YStr ?ds)]
       = Inl (ValueError (error_msg (example_env example_doc) (YStr ?ds) (YStr ''int'') ''k''))"
    by (simp add: convert_field_def dict_get_def py_int_def reraise_def)
  with v n show ?thesis
    by blast
qed

subsection \<open>The prompt list node\<close>

text \<open>With an event loop, or when the write goes through, \<^verbatim>\<open>run\<close> returns the
  prompt.\<close>

lemma pl_run_returns_prompt:
  "loop \<noteq> NoLoop \<or> (io_ok \<and> select_yaml \<noteq> []) \<Longrightarrow>
     fst (pl_run env io_ok loop fs select_yaml select title prompt) = Inr [prompt]"
  by (cases loop) (auto simp: pl_run_def pl_save_yaml_def split: option.splits)

text \<open>
  Claim C10. \<^verbatim>\<open>NS_PromptList.run\<close> is meant to return the prompt whatever happens to
  the save. It does not when there is no event loop for the calling thread and the
  write fails: the save started by the \<^verbatim>\<open>RuntimeError\<close> handler is outside the \<^verbatim>\<open>try\<close>,
  and its error leaves \<^verbatim>\<open>run\<close>. With an event loop, running or idle, the same
  failing write is absorbed and the prompt is returned.
\<close>

theorem prompt_list_run_propagates:
  "fst (pl_run (example_env zoo_doc) False NoLoop [''list.yaml'' \<mapsto> ''<doc>'']
          ''list.yaml'' [] ''kiwi'' ''green'') = Inl OSError
   \<and> fst (pl_run (example_env zoo_doc) False LoopIdle [''list.yaml'' \<mapsto> ''<doc>'']
            ''list.yaml'' [] ''kiwi'' ''green'') = Inr [''green'']
   \<and> fst (pl_run (example_env zoo_doc) False LoopRunning [''list.yaml'' \<mapsto> ''<doc>'']
            ''list.yaml'' [] ''kiwi'' ''green'') = Inr [''green'']"
  by code_simp

end
